theory Spec2Isabelle
  imports Main "HOL-Library.Word" "HOL-Library.Log_Nat"
begin

unbundle bit_operations_syntax

section \<open>Data model\<close>

type_synonym byte = "8 word"

text \<open>A Go \<open>error\<close> value is represented by its message.\<close>

type_synonym error = string

text \<open>\<open>uuid.UUID\<close> is a 16-byte array; equality is byte-wise.\<close>

type_synonym uuid = "byte list"

text \<open>
  Modelled from the spec: \<open>database.Video\<close> (declared in the \<open>internal/database\<close>
  package, not among the sources): the identity, the owning user, a nullable video
  location, a nullable thumbnail location, and descriptive fields. The handlers read
  \<open>UserID\<close> and write \<open>VideoURL\<close> and \<open>ThumbnailURL\<close>, both \<open>*string\<close> (nil is
  \<open>None\<close>); the descriptive fields are carried along unchanged.
\<close>

record Video =
  ID :: uuid
  UserID :: uuid
  VideoURL :: "string option"
  ThumbnailURL :: "string option"
  Title :: string
  Description :: string

text \<open>
  The S3 client, as far as the code uses its signing primitive: \<open>PresignGetObject\<close>
  with a bucket, a key and an expiry (a \<open>time.Duration\<close>, in nanoseconds) gives
  the URL of the presigned request or an error.
\<close>

record s3_Client =
  PresignGetObject :: "string \<Rightarrow> string \<Rightarrow> int \<Rightarrow> error + string"

record apiConfig =
  jwtSecret :: string
  s3Client :: s3_Client
  s3Bucket :: string
  s3Region :: string
  assetsRoot :: string
  port :: string

definition time_Hour :: int where
  "time_Hour = 3600 * 1000000000"

section \<open>Signed URLs\<close>

text \<open>
  \<open>strings.Split(s, sep)\<close> for a separator of one byte, which is how
  \<open>dbVideoToSignedVideo\<close> calls it (\<open>","\<close>): the substrings between the
  separators, in order; a string without separator (the empty string too) gives one part.
\<close>

fun strings_Split :: "string \<Rightarrow> char \<Rightarrow> string list" where
  "strings_Split [] sep = [[]]"
| "strings_Split (c # cs) sep =
     (if c = sep then [] # strings_Split cs sep
      else (case strings_Split cs sep of
              [] \<Rightarrow> [[c]]
            | p # ps \<Rightarrow> (c # p) # ps))"

text \<open>\<open>generatePresignedURL\<close> (presigned_url.go): returns \<open>("", err)\<close> or \<open>(url, nil)\<close>.\<close>

definition generatePresignedURL ::
  "s3_Client \<Rightarrow> string \<Rightarrow> string \<Rightarrow> int \<Rightarrow> string \<times> error option" where
  "generatePresignedURL client bucket key expireTime =
     (case PresignGetObject client bucket key expireTime of
        Inl err \<Rightarrow> ('''', Some err)
      | Inr url \<Rightarrow> (url, None))"

text \<open>\<open>dbVideoToSignedVideo\<close> (video_signed_url.go): returns a record and an error.\<close>

definition dbVideoToSignedVideo :: "apiConfig \<Rightarrow> Video \<Rightarrow> Video \<times> error option" where
  "dbVideoToSignedVideo cfg video =
     (case VideoURL video of
        None \<Rightarrow> (video, None)
      | Some loc \<Rightarrow>
          (let parts = strings_Split loc CHR '','' in
           if length parts \<noteq> 2 then (video, None)
           else
             (let bucket = parts ! 0;
                  key = parts ! 1
              in case generatePresignedURL (s3Client cfg) bucket key time_Hour of
                   (signedURL, Some err) \<Rightarrow> (video, Some err)
                 | (signedURL, None) \<Rightarrow> (video\<lparr>VideoURL := Some signedURL\<rparr>, None))))"

section \<open>Collaborators and effects\<close>

text \<open>
  What the environment decides during one request: the results of the library calls and
  of the external collaborators. The pure ones are functions of their arguments; the
  fallible effects carry the error they return, if any.
  \<^item> \<open>uuid_Parse\<close>, \<open>uuid_String\<close>: \<open>uuid.Parse\<close> and \<open>UUID.String\<close>;
  \<^item> \<open>GetBearerToken\<close>, \<open>ValidateJWT\<close>: the Auth Verifier
    (\<open>GetBearerToken(headers) \<rightarrow> token | error\<close>, \<open>ValidateJWT(token, secret) \<rightarrow> userID | error\<close>);
  \<^item> \<open>mime_ParseMediaType\<close>: the media type \<open>mime.ParseMediaType\<close> returns (its
    parameter map is discarded by every caller);
  \<^item> \<open>filepath_Join\<close>: \<open>filepath.Join\<close> of two elements;
  \<^item> \<open>CreateTemp\<close>: \<open>os.CreateTemp(dir, pattern)\<close>, the name of the new file or an error;
  \<^item> \<open>Create_err\<close>: the error of \<open>os.Create(path)\<close>;
  \<^item> \<open>Copy_err\<close>: \<open>io.Copy\<close> failing after having written that many bytes;
  \<^item> \<open>ReadAll_err\<close>, \<open>Seek_err\<close>, \<open>PutObject_err\<close>, \<open>UpdateVideo_err\<close>: the error of
    that call;
  \<^item> \<open>rand_err\<close>, \<open>entropy\<close>: \<open>rand.Read\<close> fails, or fills the slice with these bytes.
\<close>

record env =
  uuid_Parse :: "string \<Rightarrow> error + uuid"
  uuid_String :: "uuid \<Rightarrow> string"
  GetBearerToken :: "(string \<rightharpoonup> string) \<Rightarrow> error + string"
  ValidateJWT :: "string \<Rightarrow> string \<Rightarrow> error + uuid"
  mime_ParseMediaType :: "string \<Rightarrow> error + string"
  filepath_Join :: "string \<Rightarrow> string \<Rightarrow> string"
  CreateTemp :: "string \<Rightarrow> string \<Rightarrow> error + string"
  Create_err :: "string \<Rightarrow> error option"
  Copy_err :: "(nat \<times> error) option"
  ReadAll_err :: "error option"
  Seek_err :: "error option"
  rand_err :: "error option"
  entropy :: "nat \<Rightarrow> byte"
  PutObject_err :: "error option"
  UpdateVideo_err :: "error option"

text \<open>
  One file part of a multipart form: its MIME header and its content. The request: the
  path parameters, the headers, the number of body bytes the multipart parser has to read,
  the limit \<open>http.MaxBytesReader\<close> has put on the body (if any), and the form the
  parser makes of the body when it can read all of it.
\<close>

record part =
  part_Header :: "string \<rightharpoonup> string"
  part_data :: "byte list"

record request =
  PathValue :: "string \<Rightarrow> string"
  Header :: "string \<rightharpoonup> string"
  body_length :: nat
  body_limit :: "nat option"
  form :: "error + (string \<rightharpoonup> part)"

datatype handle = UploadedFile | LocalFile string

datatype event =
    EvCreateTemp string
  | EvCreate string
  | EvCopy string
  | EvSeek string
  | EvClose handle
  | EvRemove string
  | EvPutObject string string
  | EvUpdateVideo uuid
  | EvRespond nat

datatype body = ErrorBody string | VideoBody Video

text \<open>
  The state the handlers act on: the Metadata Store, the local file system, the open file
  handles, the remote object store (bucket and key to content and content type), the
  response written so far, and the sequence of effects in the order they happened.
\<close>

record world =
  db :: "uuid \<rightharpoonup> Video"
  fs :: "string \<rightharpoonup> byte list"
  opened :: "handle list"
  s3 :: "string \<times> string \<rightharpoonup> byte list \<times> string"
  response :: "(nat \<times> body) option"
  trace :: "event list"

text \<open>
  Modelled from the spec: \<open>respondWithError\<close> and \<open>respondWithJSON\<close> (the JSON response
  helpers are not among the sources): the status and a JSON error envelope
  \<open>{error: string}\<close>, or the status and the record as JSON.
\<close>

definition respondWithError :: "nat \<Rightarrow> string \<Rightarrow> world \<Rightarrow> world" where
  "respondWithError code msg w =
     w\<lparr>response := Some (code, ErrorBody msg), trace := trace w @ [EvRespond code]\<rparr>"

definition respondWithJSON :: "nat \<Rightarrow> Video \<Rightarrow> world \<Rightarrow> world" where
  "respondWithJSON code payload w =
     w\<lparr>response := Some (code, VideoBody payload), trace := trace w @ [EvRespond code]\<rparr>"

text \<open>
  Modelled from the spec: the Metadata Store (\<open>cfg.db\<close>, package \<open>internal/database\<close>,
  not among the sources): \<open>GetVideo(id) \<rightarrow> record | error(NotFound)\<close> and
  \<open>UpdateVideo(record) \<rightarrow> error\<close>, a whole-record replace addressed by the record's id.
\<close>

definition GetVideo :: "world \<Rightarrow> uuid \<Rightarrow> error + Video" where
  "GetVideo w videoID = (case db w videoID of None \<Rightarrow> Inl ''not found'' | Some v \<Rightarrow> Inr v)"

definition UpdateVideo :: "env \<Rightarrow> Video \<Rightarrow> world \<Rightarrow> error option \<times> world" where
  "UpdateVideo e video w =
     (case UpdateVideo_err e of
        Some err \<Rightarrow> (Some err, w\<lparr>trace := trace w @ [EvUpdateVideo (ID video)]\<rparr>)
      | None \<Rightarrow> (None, w\<lparr>db := (db w)(ID video \<mapsto> video),
                           trace := trace w @ [EvUpdateVideo (ID video)]\<rparr>))"

text \<open>
  \<open>net/http\<close>: \<open>MaxBytesReader\<close> limits the body; reading a limited body beyond its limit
  fails. \<open>ParseMultipartForm\<close> reads the body; \<open>FormFile\<close> parses the form if need be
  and returns the first file under the key.
\<close>

definition MaxBytesReader :: "request \<Rightarrow> nat \<Rightarrow> request" where
  "MaxBytesReader r n = r\<lparr>body_limit := Some n\<rparr>"

definition ParseMultipartForm :: "request \<Rightarrow> error + (string \<rightharpoonup> part)" where
  "ParseMultipartForm r =
     (case body_limit r of
        None \<Rightarrow> form r
      | Some n \<Rightarrow> if n < body_length r then Inl ''http: request body too large'' else form r)"

definition FormFile :: "request \<Rightarrow> string \<Rightarrow> error + part" where
  "FormFile r key =
     (case ParseMultipartForm r of
        Inl err \<Rightarrow> Inl err
      | Inr f \<Rightarrow> (case f key of None \<Rightarrow> Inl ''http: no such file'' | Some p \<Rightarrow> Inr p))"

text \<open>\<open>Header.Get\<close>: the value under the key, the empty string when there is none.\<close>

definition Header_Get :: "(string \<rightharpoonup> string) \<Rightarrow> string \<Rightarrow> string" where
  "Header_Get h key = (case h key of None \<Rightarrow> [] | Some v \<Rightarrow> v)"

text \<open>
  Local files: \<open>os.CreateTemp\<close>, \<open>os.Create\<close>, \<open>io.Copy\<close> into a file, \<open>Seek\<close>,
  \<open>Close\<close>, \<open>os.Remove\<close>, and the content read back from a file.
\<close>

definition os_CreateTemp :: "env \<Rightarrow> string \<Rightarrow> string \<Rightarrow> world \<Rightarrow> (error + string) \<times> world" where
  "os_CreateTemp e dir pattern w =
     (case CreateTemp e dir pattern of
        Inl err \<Rightarrow> (Inl err, w)
      | Inr name \<Rightarrow> (Inr name, w\<lparr>fs := (fs w)(name \<mapsto> []),
                                  opened := LocalFile name # opened w,
                                  trace := trace w @ [EvCreateTemp name]\<rparr>))"

definition os_Create :: "env \<Rightarrow> string \<Rightarrow> world \<Rightarrow> error option \<times> world" where
  "os_Create e path w =
     (case Create_err e path of
        Some err \<Rightarrow> (Some err, w)
      | None \<Rightarrow> (None, w\<lparr>fs := (fs w)(path \<mapsto> []),
                           opened := LocalFile path # opened w,
                           trace := trace w @ [EvCreate path]\<rparr>))"

definition io_Copy :: "env \<Rightarrow> string \<Rightarrow> byte list \<Rightarrow> world \<Rightarrow> error option \<times> world" where
  "io_Copy e dst src w =
     (case Copy_err e of
        Some (n, err) \<Rightarrow> (Some err, w\<lparr>fs := (fs w)(dst \<mapsto> take n src),
                                      trace := trace w @ [EvCopy dst]\<rparr>)
      | None \<Rightarrow> (None, w\<lparr>fs := (fs w)(dst \<mapsto> src), trace := trace w @ [EvCopy dst]\<rparr>))"

definition file_Seek :: "env \<Rightarrow> string \<Rightarrow> world \<Rightarrow> error option \<times> world" where
  "file_Seek e path w = (Seek_err e, w\<lparr>trace := trace w @ [EvSeek path]\<rparr>)"

definition file_Close :: "handle \<Rightarrow> world \<Rightarrow> world" where
  "file_Close h w = w\<lparr>opened := removeAll h (opened w), trace := trace w @ [EvClose h]\<rparr>"

definition os_Remove :: "string \<Rightarrow> world \<Rightarrow> world" where
  "os_Remove path w = w\<lparr>fs := (fs w)(path := None), trace := trace w @ [EvRemove path]\<rparr>"

definition file_content :: "world \<Rightarrow> string \<Rightarrow> byte list" where
  "file_content w path = (case fs w path of None \<Rightarrow> [] | Some content \<Rightarrow> content)"

text \<open>\<open>rand.Read\<close> on a slice of \<open>n\<close> bytes.\<close>

definition rand_Read :: "env \<Rightarrow> nat \<Rightarrow> error + byte list" where
  "rand_Read e n = (case rand_err e of Some err \<Rightarrow> Inl err | None \<Rightarrow> Inr (map (entropy e) [0..<n]))"

text \<open>\<open>hex.EncodeToString\<close>: two digits of the table per byte, high nibble first.\<close>

definition hextable :: string where
  "hextable = ''0123456789abcdef''"

definition hex_EncodeToString :: "byte list \<Rightarrow> string" where
  "hex_EncodeToString src =
     concat (map (\<lambda>v. [hextable ! unat (drop_bit 4 v), hextable ! unat (v AND 0x0f)]) src)"

text \<open>\<open>PutObject\<close> of the S3 client: the object is stored under bucket and key, or the call fails.\<close>

definition PutObject ::
  "env \<Rightarrow> string \<Rightarrow> string \<Rightarrow> byte list \<Rightarrow> string \<Rightarrow> world \<Rightarrow> error option \<times> world" where
  "PutObject e bucket key content contentType w =
     (case PutObject_err e of
        Some err \<Rightarrow> (Some err, w)
      | None \<Rightarrow> (None, w\<lparr>s3 := (s3 w)((bucket, key) \<mapsto> (content, contentType)),
                           trace := trace w @ [EvPutObject bucket key]\<rparr>))"

section \<open>Video upload\<close>

text \<open>
  \<open>handlerUploadVideo\<close>, from the copy into the temporary file to the response: the part
  of the handler that runs while the temporary file is open. \<open>video\<close> is the record
  fetched from the store, \<open>file\<close> the uploaded part, \<open>tempFile\<close> the name of the
  temporary file.
\<close>

definition handlerUploadVideo_staged ::
  "apiConfig \<Rightarrow> env \<Rightarrow> Video \<Rightarrow> part \<Rightarrow> string \<Rightarrow> string \<Rightarrow> world \<Rightarrow> world" where
  "handlerUploadVideo_staged cfg e video file mediaType tempFile w =
     (case io_Copy e tempFile (part_data file) w of
        (Some err, w1) \<Rightarrow> respondWithError 500 ''Couldn't save file'' w1
      | (None, w1) \<Rightarrow>
     (case file_Seek e tempFile w1 of
        (Some err, w2) \<Rightarrow> respondWithError 500 ''Couldn't reset file pointer'' w2
      | (None, w2) \<Rightarrow>
     (case rand_Read e 32 of
        Inl err \<Rightarrow> respondWithError 500 ''Couldn't generate random filename'' w2
      | Inr randomBytes \<Rightarrow>
     (let filename = hex_EncodeToString randomBytes @ ''.mp4'' in
      case PutObject e (s3Bucket cfg) filename (file_content w2 tempFile) mediaType w2 of
        (Some err, w3) \<Rightarrow> respondWithError 500 ''Couldn't upload file to S3'' w3
      | (None, w3) \<Rightarrow>
     (let videoURL = ''https://'' @ s3Bucket cfg @ ''.s3.'' @ s3Region cfg
                       @ ''.amazonaws.com/'' @ filename;
          video = video\<lparr>VideoURL := Some videoURL\<rparr>
      in case UpdateVideo e video w3 of
           (Some err, w4) \<Rightarrow> respondWithError 500 ''Couldn't update video metadata'' w4
         | (None, w4) \<Rightarrow> respondWithJSON 200 video w4)))))"

text \<open>
  \<open>handlerUploadVideo\<close>. The deferred calls run when the handler returns, last deferred
  first: \<open>tempFile.Close()\<close>, then \<open>os.Remove(tempFile.Name())\<close>, then \<open>file.Close()\<close>.
\<close>

definition handlerUploadVideo :: "apiConfig \<Rightarrow> env \<Rightarrow> request \<Rightarrow> world \<Rightarrow> world" where
  "handlerUploadVideo cfg e r0 w =
     (let r = MaxBytesReader r0 (2 ^ 30) in
      case uuid_Parse e (PathValue r ''videoID'') of
        Inl err \<Rightarrow> respondWithError 400 ''Invalid video ID'' w
      | Inr videoID \<Rightarrow>
     (case GetBearerToken e (Header r) of
        Inl err \<Rightarrow> respondWithError 401 ''Couldn't find JWT'' w
      | Inr token \<Rightarrow>
     (case ValidateJWT e token (jwtSecret cfg) of
        Inl err \<Rightarrow> respondWithError 401 ''Couldn't validate JWT'' w
      | Inr userID \<Rightarrow>
     (case GetVideo w videoID of
        Inl err \<Rightarrow> respondWithError 404 ''Couldn't get video'' w
      | Inr video \<Rightarrow>
     (if UserID video \<noteq> userID then respondWithError 401 ''You don't own this video'' w
      else
     (case FormFile r ''video'' of
        Inl err \<Rightarrow> respondWithError 400 ''Error getting video from form'' w
      | Inr file \<Rightarrow>
        file_Close UploadedFile
     (case mime_ParseMediaType e (Header_Get (part_Header file) ''Content-Type'') of
        Inl err \<Rightarrow> respondWithError 400 ''Invalid Content-Type header'' w
      | Inr mediaType \<Rightarrow>
     (if mediaType \<noteq> ''video/mp4''
      then respondWithError 400 ''File type not allowed. Only MP4 videos are supported.'' w
      else
     (case os_CreateTemp e [] ''tubely-upload-*.mp4'' w of
        (Inl err, w1) \<Rightarrow> respondWithError 500 ''Couldn't create temporary file'' w1
      | (Inr tempFile, w1) \<Rightarrow>
          os_Remove tempFile
            (file_Close (LocalFile tempFile)
               (handlerUploadVideo_staged cfg e video file mediaType tempFile w1)))))))))))"

section \<open>Thumbnail upload\<close>

text \<open>
  \<open>base64\<close>: \<open>EncodeToString\<close> over an alphabet of 64 characters, three bytes to four
  characters; a last group of one or two bytes gives two or three characters, followed by
  \<open>=\<close> padding when the encoding pads. \<open>StdEncoding\<close> pads, \<open>RawURLEncoding\<close> does not.
\<close>

fun base64_encode :: "string \<Rightarrow> bool \<Rightarrow> byte list \<Rightarrow> string" where
  "base64_encode al pad [] = []"
| "base64_encode al pad [a] =
     [al ! unat (drop_bit 2 a), al ! unat (push_bit 4 (a AND 0x03))]
     @ (if pad then ''=='' else [])"
| "base64_encode al pad [a, b] =
     [al ! unat (drop_bit 2 a),
      al ! unat (push_bit 4 (a AND 0x03) OR drop_bit 4 b),
      al ! unat (push_bit 2 (b AND 0x0f))]
     @ (if pad then ''='' else [])"
| "base64_encode al pad (a # b # c # rest) =
     [al ! unat (drop_bit 2 a),
      al ! unat (push_bit 4 (a AND 0x03) OR drop_bit 4 b),
      al ! unat (push_bit 2 (b AND 0x0f) OR drop_bit 6 c),
      al ! unat (c AND 0x3f)]
     @ base64_encode al pad rest"

definition encodeStd :: string where
  "encodeStd = ''ABCDEFGHIJKLMNOPQRSTUVWXYZabcdefghijklmnopqrstuvwxyz0123456789+/''"

definition encodeURL :: string where
  "encodeURL = ''ABCDEFGHIJKLMNOPQRSTUVWXYZabcdefghijklmnopqrstuvwxyz0123456789-_''"

definition base64_StdEncoding :: "byte list \<Rightarrow> string" where
  "base64_StdEncoding src = base64_encode encodeStd True src"

definition base64_RawURLEncoding :: "byte list \<Rightarrow> string" where
  "base64_RawURLEncoding src = base64_encode encodeURL False src"

text \<open>
  The tail the two handlers that store the thumbnail in the assets directory share word
  for word: from \<open>os.Create(filePath)\<close> to the response. The deferred
  \<open>destFile.Close()\<close> runs when the handler returns.
\<close>

definition thumbnail_store ::
  "apiConfig \<Rightarrow> env \<Rightarrow> Video \<Rightarrow> part \<Rightarrow> string \<Rightarrow> string \<Rightarrow> world \<Rightarrow> world" where
  "thumbnail_store cfg e video file filename filePath w =
     (case os_Create e filePath w of
        (Some err, w1) \<Rightarrow> respondWithError 500 ''Couldn't create file'' w1
      | (None, w1) \<Rightarrow>
        file_Close (LocalFile filePath)
     (case io_Copy e filePath (part_data file) w1 of
        (Some err, w2) \<Rightarrow> respondWithError 500 ''Couldn't save file'' w2
      | (None, w2) \<Rightarrow>
     (let thumbnailURL = ''http://localhost:'' @ port cfg @ ''/assets/'' @ filename;
          video = video\<lparr>ThumbnailURL := Some thumbnailURL\<rparr>
      in case UpdateVideo e video w2 of
           (Some err, w3) \<Rightarrow> respondWithError 500 ''Couldn't update video'' (os_Remove filePath w3)
         | (None, w3) \<Rightarrow> respondWithJSON 200 video w3)))"

text \<open>
  \<open>handlerUploadThumbnail\<close>, the handler that names the file after the video id
  (first file of part_001).
\<close>

definition handlerUploadThumbnail_byID :: "apiConfig \<Rightarrow> env \<Rightarrow> request \<Rightarrow> world \<Rightarrow> world" where
  "handlerUploadThumbnail_byID cfg e r w =
     (case uuid_Parse e (PathValue r ''videoID'') of
        Inl err \<Rightarrow> respondWithError 400 ''Invalid ID'' w
      | Inr videoID \<Rightarrow>
     (case GetBearerToken e (Header r) of
        Inl err \<Rightarrow> respondWithError 401 ''Couldn't find JWT'' w
      | Inr token \<Rightarrow>
     (case ValidateJWT e token (jwtSecret cfg) of
        Inl err \<Rightarrow> respondWithError 401 ''Couldn't validate JWT'' w
      | Inr userID \<Rightarrow>
     (case ParseMultipartForm r of
        Inl err \<Rightarrow> respondWithError 400 ''Error parsing multipart form'' w
      | Inr f \<Rightarrow>
     (case FormFile r ''thumbnail'' of
        Inl err \<Rightarrow> respondWithError 400 ''Error getting thumbnail from form'' w
      | Inr file \<Rightarrow>
        file_Close UploadedFile
     (let contentType = Header_Get (part_Header file) ''Content-Type'' in
      case (if contentType = ''image/jpeg'' then Some ''.jpg''
            else if contentType = ''image/png'' then Some ''.png''
            else if contentType = ''image/gif'' then Some ''.gif''
            else if contentType = ''application/pdf'' then Some ''.pdf''
            else None) of
        None \<Rightarrow> respondWithError 400 ''Unsupported file type'' w
      | Some ext \<Rightarrow>
     (case GetVideo w videoID of
        Inl err \<Rightarrow> respondWithError 404 ''Couldn't get video'' w
      | Inr video \<Rightarrow>
     (if UserID video \<noteq> userID then respondWithError 401 ''You don't own this video'' w
      else
     (let filename = uuid_String e videoID @ ext;
          filePath = filepath_Join e (assetsRoot cfg) filename
      in thumbnail_store cfg e video file filename filePath w)))))))))"

text \<open>
  \<open>handlerUploadThumbnail\<close>, the handler that names the file by 32 random bytes
  (second file of part_001).
\<close>

definition handlerUploadThumbnail_random :: "apiConfig \<Rightarrow> env \<Rightarrow> request \<Rightarrow> world \<Rightarrow> world" where
  "handlerUploadThumbnail_random cfg e r w =
     (case uuid_Parse e (PathValue r ''videoID'') of
        Inl err \<Rightarrow> respondWithError 400 ''Invalid ID'' w
      | Inr videoID \<Rightarrow>
     (case GetBearerToken e (Header r) of
        Inl err \<Rightarrow> respondWithError 401 ''Couldn't find JWT'' w
      | Inr token \<Rightarrow>
     (case ValidateJWT e token (jwtSecret cfg) of
        Inl err \<Rightarrow> respondWithError 401 ''Couldn't validate JWT'' w
      | Inr userID \<Rightarrow>
     (case ParseMultipartForm r of
        Inl err \<Rightarrow> respondWithError 400 ''Error parsing multipart form'' w
      | Inr f \<Rightarrow>
     (case FormFile r ''thumbnail'' of
        Inl err \<Rightarrow> respondWithError 400 ''Error getting thumbnail from form'' w
      | Inr file \<Rightarrow>
        file_Close UploadedFile
     (case mime_ParseMediaType e (Header_Get (part_Header file) ''Content-Type'') of
        Inl err \<Rightarrow> respondWithError 400 ''Invalid Content-Type header'' w
      | Inr mediaType \<Rightarrow>
     (case (if mediaType = ''image/jpeg'' then Some ''.jpg''
            else if mediaType = ''image/png'' then Some ''.png''
            else None) of
        None \<Rightarrow> respondWithError 400
                 ''File type not allowed. Only JPEG and PNG images are supported.'' w
      | Some ext \<Rightarrow>
     (case GetVideo w videoID of
        Inl err \<Rightarrow> respondWithError 404 ''Couldn't get video'' w
      | Inr video \<Rightarrow>
     (if UserID video \<noteq> userID then respondWithError 401 ''You don't own this video'' w
      else
     (case rand_Read e 32 of
        Inl err \<Rightarrow> respondWithError 500 ''Couldn't generate random filename'' w
      | Inr randomBytes \<Rightarrow>
     (let filename = base64_RawURLEncoding randomBytes @ ext;
          filePath = filepath_Join e (assetsRoot cfg) filename
      in thumbnail_store cfg e video file filename filePath w)))))))))))"

text \<open>
  \<open>handlerUploadThumbnail\<close>, the handler that stores the thumbnail as an inline data URL
  (part_002).
\<close>

definition handlerUploadThumbnail_inline :: "apiConfig \<Rightarrow> env \<Rightarrow> request \<Rightarrow> world \<Rightarrow> world" where
  "handlerUploadThumbnail_inline cfg e r w =
     (case uuid_Parse e (PathValue r ''videoID'') of
        Inl err \<Rightarrow> respondWithError 400 ''Invalid ID'' w
      | Inr videoID \<Rightarrow>
     (case GetBearerToken e (Header r) of
        Inl err \<Rightarrow> respondWithError 401 ''Couldn't find JWT'' w
      | Inr token \<Rightarrow>
     (case ValidateJWT e token (jwtSecret cfg) of
        Inl err \<Rightarrow> respondWithError 401 ''Couldn't validate JWT'' w
      | Inr userID \<Rightarrow>
     (case ParseMultipartForm r of
        Inl err \<Rightarrow> respondWithError 400 ''Error parsing multipart form'' w
      | Inr f \<Rightarrow>
     (case FormFile r ''thumbnail'' of
        Inl err \<Rightarrow> respondWithError 400 ''Error getting thumbnail from form'' w
      | Inr file \<Rightarrow>
        file_Close UploadedFile
     (let contentType = Header_Get (part_Header file) ''Content-Type'' in
      case ReadAll_err e of
        Some err \<Rightarrow> respondWithError 500 ''Error reading thumbnail data'' w
      | None \<Rightarrow>
     (let imageData = part_data file in
      case GetVideo w videoID of
        Inl err \<Rightarrow> respondWithError 404 ''Couldn't get video'' w
      | Inr video \<Rightarrow>
     (if UserID video \<noteq> userID then respondWithError 401 ''You don't own this video'' w
      else
     (let base64Data = base64_StdEncoding imageData;
          dataURL = ''data:'' @ contentType @ '';base64,'' @ base64Data;
          video = video\<lparr>ThumbnailURL := Some dataURL\<rparr>
      in case UpdateVideo e video w of
           (Some err, w1) \<Rightarrow> respondWithError 500 ''Couldn't update video'' w1
         | (None, w1) \<Rightarrow> respondWithJSON 200 video w1)))))))))"

section \<open>Media prober and aspect classifier\<close>

text \<open>
  \<open>float64\<close>: a finite value is kept exactly, as an integer times a power of two
  (\<open>Finite m e\<close> is \<open>m * 2 ^ e\<close>); \<open>Infinity neg\<close> is the infinity of that sign.
  Zero carries no sign: the only zero this program can divide by is \<open>float64(0)\<close>, which
  is positive, and the sign of a zero quotient is lost in the subtraction that follows it.
\<close>

datatype float64 = Finite int int | Infinity bool | NaN

text \<open>The integer nearest to \<open>a / b\<close>, ties to the even one (\<open>0 \<le> a\<close>, \<open>0 < b\<close>).\<close>

definition round_half_even :: "int \<Rightarrow> int \<Rightarrow> int" where
  "round_half_even a b =
     (let q = a div b; r = a mod b
      in if 2 * r < b then q
         else if b < 2 * r then q + 1
         else if even q then q else q + 1)"

text \<open>
  \<open>\<lfloor>log\<^sub>2 (a / b)\<rfloor>\<close> for positive \<open>a\<close> and \<open>b\<close>, from the numbers of binary digits
  of \<open>a\<close> and \<open>b\<close>.
\<close>

definition floor_log2 :: "int \<Rightarrow> int \<Rightarrow> int" where
  "floor_log2 a b =
     (let d = bitlen a - bitlen b
      in if (if 0 \<le> d then b * 2 ^ nat d \<le> a else b \<le> a * 2 ^ nat (- d)) then d else d - 1)"

text \<open>
  IEEE 754 binary64 rounding of the rational \<open>a / b\<close> (\<open>0 < b\<close>), to nearest, ties to even:
  53 significant bits, the quantum never below \<open>2 ^ -1074\<close> (gradual underflow), and
  infinity from \<open>2 ^ 1024\<close> on.
\<close>

definition round_float64 :: "int \<Rightarrow> int \<Rightarrow> float64" where
  "round_float64 a b =
     (if a = 0 then Finite 0 0
      else
        (let n = \<bar>a\<bar>;
             e = max (floor_log2 n b - 52) (- 1074);
             m = (if 0 \<le> e then round_half_even n (b * 2 ^ nat e)
                  else round_half_even (n * 2 ^ nat (- e)) b)
         in if 971 < e \<or> (e = 971 \<and> 2 ^ 53 \<le> m) then Infinity (a < 0)
            else Finite (if a < 0 then - m else m) e))"

text \<open>\<open>float64(n)\<close> for an integer \<open>n\<close>.\<close>

definition float64_of_int :: "int \<Rightarrow> float64" where
  "float64_of_int n = round_float64 n 1"

text \<open>The operations of the classifier: \<open>/\<close>, \<open>-\<close>, \<open>math.Abs\<close> and \<open><\<close>.\<close>

fun float64_div :: "float64 \<Rightarrow> float64 \<Rightarrow> float64" where
  "float64_div NaN y = NaN"
| "float64_div x NaN = NaN"
| "float64_div (Infinity s) (Infinity t) = NaN"
| "float64_div (Infinity s) (Finite m e) = Infinity (s \<noteq> (m < 0))"
| "float64_div (Finite m e) (Infinity t) = Finite 0 0"
| "float64_div (Finite m1 e1) (Finite m2 e2) =
     (if m2 = 0 then (if m1 = 0 then NaN else Infinity (m1 < 0))
      else round_float64 ((if m2 < 0 then - m1 else m1) * 2 ^ nat (e1 - e2))
                         (\<bar>m2\<bar> * 2 ^ nat (e2 - e1)))"

fun float64_sub :: "float64 \<Rightarrow> float64 \<Rightarrow> float64" where
  "float64_sub NaN y = NaN"
| "float64_sub x NaN = NaN"
| "float64_sub (Infinity s) (Infinity t) = (if s = t then NaN else Infinity s)"
| "float64_sub (Infinity s) (Finite m e) = Infinity s"
| "float64_sub (Finite m e) (Infinity t) = Infinity (\<not> t)"
| "float64_sub (Finite m1 e1) (Finite m2 e2) =
     (let e = min e1 e2;
          d = m1 * 2 ^ nat (e1 - e) - m2 * 2 ^ nat (e2 - e)
      in round_float64 (d * 2 ^ nat e) (2 ^ nat (- e)))"

fun math_Abs :: "float64 \<Rightarrow> float64" where
  "math_Abs NaN = NaN"
| "math_Abs (Infinity s) = Infinity False"
| "math_Abs (Finite m e) = Finite \<bar>m\<bar> e"

fun float64_less :: "float64 \<Rightarrow> float64 \<Rightarrow> bool" where
  "float64_less NaN y = False"
| "float64_less x NaN = False"
| "float64_less (Infinity s) (Infinity t) = (s \<and> \<not> t)"
| "float64_less (Infinity s) (Finite m e) = s"
| "float64_less (Finite m e) (Infinity t) = (\<not> t)"
| "float64_less (Finite m1 e1) (Finite m2 e2) =
     (let e = min e1 e2 in m1 * 2 ^ nat (e1 - e) < m2 * 2 ^ nat (e2 - e))"

text \<open>The real number a finite \<open>float64\<close> stands for.\<close>

fun float64_value :: "float64 \<Rightarrow> real" where
  "float64_value (Finite m e) = real_of_int m * 2 powr real_of_int e"
| "float64_value (Infinity s) = 0"
| "float64_value NaN = 0"

text \<open>\<open>FFProbeOutput\<close>: the streams, each with \<open>width\<close> and \<open>height\<close> as Go \<open>int\<close> (64 bits).\<close>

record stream =
  Width :: "64 word"
  Height :: "64 word"

record FFProbeOutput =
  Streams :: "stream list"

text \<open>
  The external tool and the decoder: \<open>cmd_Run\<close> is what running the command with these
  arguments gives (an error, or its standard output), \<open>json_Unmarshal\<close> what decoding
  that output gives.
\<close>

record prober =
  cmd_Run :: "string \<Rightarrow> string list \<Rightarrow> error + byte list"
  json_Unmarshal :: "byte list \<Rightarrow> error + FFProbeOutput"

text \<open>
  The classification at the end of \<open>getVideoAspectRatio\<close>: from the conversion of
  width and height to \<open>float64\<close> to the label. The constants \<open>16.0/9.0\<close>,
  \<open>9.0/16.0\<close> and \<open>0.1\<close> are exact constant expressions, rounded to \<open>float64\<close>.
\<close>

definition aspectRatioLabel :: "64 word \<Rightarrow> 64 word \<Rightarrow> string" where
  "aspectRatioLabel w h =
     (let width = float64_of_int (sint w);
          height = float64_of_int (sint h);
          ratio = float64_div width height
      in if float64_less (math_Abs (float64_sub ratio (round_float64 16 9))) (round_float64 1 10)
         then ''16:9''
         else if float64_less (math_Abs (float64_sub ratio (round_float64 9 16))) (round_float64 1 10)
         then ''9:16''
         else ''other'')"

text \<open>\<open>getVideoAspectRatio\<close> (video_aspect_ratio.go): returns a label and an error.\<close>

definition getVideoAspectRatio :: "prober \<Rightarrow> string \<Rightarrow> string \<times> error option" where
  "getVideoAspectRatio p filePath =
     (case cmd_Run p ''ffprobe''
             [''-v'', ''error'', ''-print_format'', ''json'', ''-show_streams'', filePath] of
        Inl err \<Rightarrow> ([], Some (''error running ffprobe: '' @ err))
      | Inr out \<Rightarrow>
     (case json_Unmarshal p out of
        Inl err \<Rightarrow> ([], Some (''error unmarshaling ffprobe output: '' @ err))
      | Inr data \<Rightarrow>
     (if length (Streams data) = 0 then ([], Some ''no streams found in video file'')
      else (aspectRatioLabel (Width (Streams data ! 0)) (Height (Streams data ! 0)), None))))"

section \<open>Vocabulary of the properties\<close>

text \<open>The video id a request names, and the identity the Auth Verifier resolves for it.\<close>

definition requested_video :: "env \<Rightarrow> request \<Rightarrow> uuid option" where
  "requested_video e r =
     (case uuid_Parse e (PathValue r ''videoID'') of Inl err \<Rightarrow> None | Inr videoID \<Rightarrow> Some videoID)"

definition caller :: "apiConfig \<Rightarrow> env \<Rightarrow> request \<Rightarrow> uuid option" where
  "caller cfg e r =
     (case GetBearerToken e (Header r) of
        Inl err \<Rightarrow> None
      | Inr token \<Rightarrow>
          (case ValidateJWT e token (jwtSecret cfg) of Inl err \<Rightarrow> None | Inr userID \<Rightarrow> Some userID))"

text \<open>The request names an existing video and comes from its owner.\<close>

definition owner_request :: "apiConfig \<Rightarrow> env \<Rightarrow> request \<Rightarrow> world \<Rightarrow> bool" where
  "owner_request cfg e r w =
     (case requested_video e r of
        None \<Rightarrow> False
      | Some videoID \<Rightarrow>
          (case caller cfg e r of
             None \<Rightarrow> False
           | Some userID \<Rightarrow>
               (case db w videoID of None \<Rightarrow> False | Some video \<Rightarrow> UserID video = userID)))"

text \<open>The effects a handler added to the trace of the world it started from.\<close>

definition new_events :: "world \<Rightarrow> world \<Rightarrow> event list" where
  "new_events w w' = drop (length (trace w)) (trace w')"




text \<open>
  The effects of \<open>handlerUploadVideo\<close> while the temporary file \<open>p\<close> is open, by the
  calls that fail.
\<close>

definition staged_events :: "apiConfig \<Rightarrow> env \<Rightarrow> Video \<Rightarrow> string \<Rightarrow> event list" where
  "staged_events cfg e video p =
     EvCopy p #
       (if Copy_err e \<noteq> None then [EvRespond 500]
        else EvSeek p #
          (if Seek_err e \<noteq> None \<or> rand_err e \<noteq> None \<or> PutObject_err e \<noteq> None
           then [EvRespond 500]
           else [EvPutObject (s3Bucket cfg)
                   (hex_EncodeToString (map (entropy e) [0..<32]) @ ''.mp4''),
                 EvUpdateVideo (ID video),
                 EvRespond (if UpdateVideo_err e = None then 200 else 500)]))"

text \<open>
  The location \<open>handlerUploadVideo\<close> writes into the record: the URL of the object
  in the bucket, the key being the 32 random bytes in hexadecimal followed by \<open>.mp4\<close>.
\<close>

definition stored_location :: "apiConfig \<Rightarrow> env \<Rightarrow> string" where
  "stored_location cfg e =
     ''https://'' @ s3Bucket cfg @ ''.s3.'' @ s3Region cfg @ ''.amazonaws.com/''
     @ hex_EncodeToString (map (entropy e) [0..<32]) @ ''.mp4''"

text \<open>
  The effects of \<open>thumbnail_store\<close> on the file \<open>path\<close>, by the calls that fail.
\<close>

definition store_events :: "env \<Rightarrow> Video \<Rightarrow> string \<Rightarrow> event list" where
  "store_events e video path =
     (if Create_err e path \<noteq> None then [EvRespond 500]
      else EvCreate path # EvCopy path #
        (if Copy_err e \<noteq> None then [EvRespond 500]
         else EvUpdateVideo (ID video) #
           (if UpdateVideo_err e \<noteq> None then [EvRemove path, EvRespond 500]
            else [EvRespond 200]))
        @ [EvClose (LocalFile path)])"

text \<open>\<open>|x - a / b| < 0.1\<close> in \<open>float64\<close>, the test the classifier makes twice.\<close>

definition within_tolerance :: "float64 \<Rightarrow> int \<Rightarrow> int \<Rightarrow> bool" where
  "within_tolerance x a b =
     float64_less (math_Abs (float64_sub x (round_float64 a b))) (round_float64 1 10)"

section \<open>Example inputs\<close>

text \<open>\<open>UUID.String\<close>: the canonical form, hexadecimal in groups of 8-4-4-4-12.\<close>

definition ex_uuid_String :: "uuid \<Rightarrow> string" where
  "ex_uuid_String u =
     hex_EncodeToString (take 4 u) @ ''-'' @ hex_EncodeToString (take 2 (drop 4 u)) @ ''-''
     @ hex_EncodeToString (take 2 (drop 6 u)) @ ''-'' @ hex_EncodeToString (take 2 (drop 8 u))
     @ ''-'' @ hex_EncodeToString (drop 10 u)"

definition ex_presign :: "string \<Rightarrow> string \<Rightarrow> int \<Rightarrow> error + string" where
  "ex_presign bucket key expiry =
     Inr (''https://'' @ bucket @ ''.s3.amazonaws.com/'' @ key @ ''?X-Amz-Expires=3600'')"

definition ex_cfg :: apiConfig where
  "ex_cfg = \<lparr>jwtSecret = ''secret'',
             s3Client = \<lparr>PresignGetObject = ex_presign\<rparr>,
             s3Bucket = ''tubely'', s3Region = ''us-east-1'',
             assetsRoot = ''assets'', port = ''8091''\<rparr>"

definition ex_owner :: uuid where
  "ex_owner = replicate 16 1"

definition ex_other :: uuid where
  "ex_other = replicate 16 2"

definition ex_videoID :: uuid where
  "ex_videoID = replicate 16 7"

definition ex_video :: Video where
  "ex_video = \<lparr>ID = ex_videoID, UserID = ex_owner, VideoURL = None, ThumbnailURL = None,
               Title = ''boots'', Description = ''a video''\<rparr>"

definition ex_env :: env where
  "ex_env =
     \<lparr>uuid_Parse = (\<lambda>s. if s = ''07070707-0707-0707-0707-070707070707'' then Inr ex_videoID
                         else Inl ''invalid UUID''),
      uuid_String = ex_uuid_String,
      GetBearerToken = (\<lambda>h. case h ''Authorization'' of
                               None \<Rightarrow> Inl ''no auth header included in request''
                             | Some v \<Rightarrow> if take 7 v = ''Bearer '' then Inr (drop 7 v)
                                         else Inl ''malformed authorization header''),
      ValidateJWT = (\<lambda>token secret.
                       if token = ''owner-token'' then Inr ex_owner
                       else if token = ''other-token'' then Inr ex_other
                       else Inl ''invalid token''),
      mime_ParseMediaType = (\<lambda>v. if v = [] then Inl ''mime: no media type'' else Inr v),
      filepath_Join = (\<lambda>dir name. dir @ ''/'' @ name),
      CreateTemp = (\<lambda>dir pattern. Inr ''/tmp/tubely-upload-1.mp4''),
      Create_err = (\<lambda>path. None),
      Copy_err = None,
      ReadAll_err = None,
      Seek_err = None,
      rand_err = None,
      entropy = (\<lambda>i. of_nat i),
      PutObject_err = None,
      UpdateVideo_err = None\<rparr>"

definition ex_mp4 :: part where
  "ex_mp4 = \<lparr>part_Header = [''Content-Type'' \<mapsto> ''video/mp4''], part_data = [0, 0, 0, 32]\<rparr>"

definition ex_png :: part where
  "ex_png = \<lparr>part_Header = [''Content-Type'' \<mapsto> ''image/png''], part_data = [137, 80, 78, 71]\<rparr>"

definition ex_request :: request where
  "ex_request =
     \<lparr>PathValue = (\<lambda>name. if name = ''videoID'' then ''07070707-0707-0707-0707-070707070707''
                          else []),
      Header = [''Authorization'' \<mapsto> ''Bearer owner-token''],
      body_length = 4096,
      body_limit = None,
      form = Inr [''video'' \<mapsto> ex_mp4, ''thumbnail'' \<mapsto> ex_png]\<rparr>"

definition ex_world :: world where
  "ex_world = \<lparr>db = [ex_videoID \<mapsto> ex_video], fs = Map.empty, opened = [], s3 = Map.empty,
               response = None, trace = []\<rparr>"

definition ex_quicktime :: part where
  "ex_quicktime = \<lparr>part_Header = [''Content-Type'' \<mapsto> ''video/quicktime''],
                   part_data = [0, 0, 0, 32]\<rparr>"

definition ex_text :: part where
  "ex_text = \<lparr>part_Header = [''Content-Type'' \<mapsto> ''text/plain''], part_data = [104, 105]\<rparr>"

text \<open>The same request sent by another authenticated user.\<close>

definition ex_request_other :: request where
  "ex_request_other = ex_request\<lparr>Header := [''Authorization'' \<mapsto> ''Bearer other-token'']\<rparr>"

text \<open>A thumbnail of a type no handler lists, sent by the other user.\<close>

definition ex_request_text :: request where
  "ex_request_text = ex_request_other\<lparr>form := Inr [''thumbnail'' \<mapsto> ex_text]\<rparr>"

text \<open>
  A prober whose tool prints \<open>{}\<close> for the file \<open>empty.mp4\<close> and one stream of
  1920 by 1080 for any other file.
\<close>

definition ex_prober :: prober where
  "ex_prober =
     \<lparr>cmd_Run = (\<lambda>name args. if last args = ''empty.mp4'' then Inr [123, 125] else Inr [123, 34, 125]),
      json_Unmarshal = (\<lambda>out. if out = [123, 125] then Inr \<lparr>Streams = []\<rparr>
                               else Inr \<lparr>Streams = [\<lparr>Width = 1920, Height = 1080\<rparr>]\<rparr>)\<rparr>"

section \<open>Unfolding the effects and the examples\<close>

lemmas effect_defs = respondWithError_def respondWithJSON_def GetVideo_def UpdateVideo_def
  MaxBytesReader_def ParseMultipartForm_def FormFile_def Header_Get_def os_CreateTemp_def
  os_Create_def io_Copy_def file_Seek_def file_Close_def os_Remove_def file_content_def
  rand_Read_def PutObject_def

lemmas ex_defs = ex_cfg_def ex_env_def ex_request_def ex_world_def ex_video_def ex_videoID_def
  ex_owner_def ex_other_def ex_mp4_def ex_png_def ex_presign_def ex_uuid_String_def
  ex_quicktime_def ex_text_def ex_request_other_def ex_request_text_def

lemma respondWithError_sel [simp]:
  "db (respondWithError code msg w) = db w"
  "fs (respondWithError code msg w) = fs w"
  "s3 (respondWithError code msg w) = s3 w"
  "opened (respondWithError code msg w) = opened w"
  "response (respondWithError code msg w) = Some (code, ErrorBody msg)"
  "trace (respondWithError code msg w) = trace w @ [EvRespond code]"
  by (simp_all add: respondWithError_def)

lemma file_Close_sel [simp]:
  "db (file_Close h w) = db w"
  "fs (file_Close h w) = fs w"
  "s3 (file_Close h w) = s3 w"
  "opened (file_Close h w) = removeAll h (opened w)"
  "response (file_Close h w) = response w"
  "trace (file_Close h w) = trace w @ [EvClose h]"
  by (simp_all add: file_Close_def)

lemma os_Remove_sel [simp]:
  "db (os_Remove path w) = db w"
  "fs (os_Remove path w) = (fs w)(path := None)"
  "s3 (os_Remove path w) = s3 w"
  "opened (os_Remove path w) = opened w"
  "response (os_Remove path w) = response w"
  "trace (os_Remove path w) = trace w @ [EvRemove path]"
  by (simp_all add: os_Remove_def)

lemma MaxBytesReader_sel [simp]:
  "PathValue (MaxBytesReader r n) = PathValue r"
  "Header (MaxBytesReader r n) = Header r"
  "body_length (MaxBytesReader r n) = body_length r"
  "body_limit (MaxBytesReader r n) = Some n"
  "form (MaxBytesReader r n) = form r"
  by (simp_all add: MaxBytesReader_def)

lemma owner_requestD:
  assumes "owner_request cfg e r w"
  obtains videoID token video where
    "uuid_Parse e (PathValue r ''videoID'') = Inr videoID"
    "GetBearerToken e (Header r) = Inr token"
    "ValidateJWT e token (jwtSecret cfg) = Inr (UserID video)"
    "db w videoID = Some video"
  using assms
  by (auto simp: owner_request_def requested_video_def caller_def split: sum.splits option.splits)

lemmas video_defs = handlerUploadVideo_def handlerUploadVideo_staged_def Let_def

lemma callerD:
  assumes "requested_video e r = Some videoID" and "caller cfg e r = Some userID"
  obtains token where
    "uuid_Parse e (PathValue r ''videoID'') = Inr videoID"
    "GetBearerToken e (Header r) = Inr token"
    "ValidateJWT e token (jwtSecret cfg) = Inr userID"
  using assms
  by (auto simp: requested_video_def caller_def split: sum.splits)

lemma ex_key:
  "hex_EncodeToString (map of_nat [0..<32])
     = ''000102030405060708090a0b0c0d0e0f101112131415161718191a1b1c1d1e1f''"
  by code_simp

section \<open>Properties of the Signed-URL Generator\<close>

lemma strings_Split_nonempty: "strings_Split s sep \<noteq> []"
  by (induction s) (auto split: list.splits)

lemma length_strings_Split: "length (strings_Split s sep) = Suc (count_list s sep)"
proof (induction s)
  case Nil
  show ?case by simp
next
  case (Cons c cs)
  then show ?case
    using strings_Split_nonempty [of cs sep] by (auto split: list.splits)
qed




section \<open>Properties of the video upload handler\<close>

lemma staged_trace:
  "trace (handlerUploadVideo_staged cfg e video file mediaType p w)
     = trace w @ staged_events cfg e video p"
  unfolding handlerUploadVideo_staged_def effect_defs Let_def staged_events_def
  by (simp split: option.splits sum.splits prod.splits)

lemma staged_events_props:
  "EvRemove q \<notin> set (staged_events cfg e video p)"
  "EvCreateTemp q \<notin> set (staged_events cfg e video p)"
  "\<exists>code. EvRespond code \<in> set (staged_events cfg e video p)"
  by (auto simp: staged_events_def)

lemma handlerUploadVideo_trace:
  "\<exists>es. trace (handlerUploadVideo cfg e r w) = trace w @ es \<and>
     (\<forall>p. EvCreateTemp p \<in> set es \<longrightarrow>
        (\<exists>video. es = EvCreateTemp p # staged_events cfg e video p
                        @ [EvClose (LocalFile p), EvRemove p, EvClose UploadedFile]) \<and>
        fs (handlerUploadVideo cfg e r w) p = None \<and>
        LocalFile p \<notin> set (opened (handlerUploadVideo cfg e r w)))"
  unfolding handlerUploadVideo_def Let_def
  by (auto simp: effect_defs staged_trace staged_events_props split: sum.splits prod.splits)

text \<open>
  C5. Whenever the handler has created its temporary file \<open>p\<close>, whatever happens next
  (success, or a failure of the copy, the rewind, the random source, the object store or
  the metadata store), the last effects of the handler are: close \<open>p\<close>, remove \<open>p\<close>,
  close the uploaded part. The response has been written before, \<open>p\<close> is not removed
  earlier, and when the handler returns \<open>p\<close> is neither a file nor an open handle.
\<close>

theorem handlerUploadVideo_temp_file_cleanup:
  assumes "EvCreateTemp p \<in> set (new_events w (handlerUploadVideo cfg e r w))"
  shows "(\<exists>es. new_events w (handlerUploadVideo cfg e r w)
                 = es @ [EvClose (LocalFile p), EvRemove p, EvClose UploadedFile]
               \<and> EvRemove p \<notin> set es \<and> (\<exists>code. EvRespond code \<in> set es))
         \<and> fs (handlerUploadVideo cfg e r w) p = None
         \<and> LocalFile p \<notin> set (opened (handlerUploadVideo cfg e r w))"
proof -
  obtain es where es: "trace (handlerUploadVideo cfg e r w) = trace w @ es"
    and staged: "\<forall>p. EvCreateTemp p \<in> set es \<longrightarrow>
        (\<exists>video. es = EvCreateTemp p # staged_events cfg e video p
                        @ [EvClose (LocalFile p), EvRemove p, EvClose UploadedFile]) \<and>
        fs (handlerUploadVideo cfg e r w) p = None \<and>
        LocalFile p \<notin> set (opened (handlerUploadVideo cfg e r w))"
    using handlerUploadVideo_trace [of cfg e r w] by blast
  have new: "new_events w (handlerUploadVideo cfg e r w) = es"
    by (simp add: new_events_def es)
  with assms have "EvCreateTemp p \<in> set es" by simp
  with staged obtain video where
    shape: "es = EvCreateTemp p # staged_events cfg e video p
                   @ [EvClose (LocalFile p), EvRemove p, EvClose UploadedFile]"
    and gone: "fs (handlerUploadVideo cfg e r w) p = None"
    and closed: "LocalFile p \<notin> set (opened (handlerUploadVideo cfg e r w))"
    by blast
  let ?es = "EvCreateTemp p # staged_events cfg e video p"
  have "es = ?es @ [EvClose (LocalFile p), EvRemove p, EvClose UploadedFile]"
    using shape by simp
  moreover have "EvRemove p \<notin> set ?es"
    by (simp add: staged_events_props)
  moreover have "\<exists>code. EvRespond code \<in> set ?es"
    using staged_events_props(3) [of cfg e video p] by auto
  ultimately show ?thesis using new gone closed by blast
qed

theorem handlerUploadVideo_temp_file_cleanup_witness:
  "new_events ex_world (handlerUploadVideo ex_cfg ex_env ex_request ex_world)
     = [EvCreateTemp ''/tmp/tubely-upload-1.mp4'',
        EvCopy ''/tmp/tubely-upload-1.mp4'',
        EvSeek ''/tmp/tubely-upload-1.mp4'',
        EvPutObject ''tubely''
          ''000102030405060708090a0b0c0d0e0f101112131415161718191a1b1c1d1e1f.mp4'',
        EvUpdateVideo ex_videoID,
        EvRespond 200,
        EvClose (LocalFile ''/tmp/tubely-upload-1.mp4''),
        EvRemove ''/tmp/tubely-upload-1.mp4'',
        EvClose UploadedFile]
   \<and> fs (handlerUploadVideo ex_cfg ex_env ex_request ex_world) ''/tmp/tubely-upload-1.mp4'' = None
   \<and> LocalFile ''/tmp/tubely-upload-1.mp4''
         \<notin> set (opened (handlerUploadVideo ex_cfg ex_env ex_request ex_world))"
proof -
  have events: "new_events ex_world (handlerUploadVideo ex_cfg ex_env ex_request ex_world)
     = [EvCreateTemp ''/tmp/tubely-upload-1.mp4'',
        EvCopy ''/tmp/tubely-upload-1.mp4'',
        EvSeek ''/tmp/tubely-upload-1.mp4'',
        EvPutObject ''tubely''
          ''000102030405060708090a0b0c0d0e0f101112131415161718191a1b1c1d1e1f.mp4'',
        EvUpdateVideo ex_videoID,
        EvRespond 200,
        EvClose (LocalFile ''/tmp/tubely-upload-1.mp4''),
        EvRemove ''/tmp/tubely-upload-1.mp4'',
        EvClose UploadedFile]"
    by (simp add: new_events_def video_defs effect_defs ex_defs ex_key)
  then have created: "EvCreateTemp ''/tmp/tubely-upload-1.mp4''
      \<in> set (new_events ex_world (handlerUploadVideo ex_cfg ex_env ex_request ex_world))"
    by simp
  from handlerUploadVideo_temp_file_cleanup [OF created] events show ?thesis
    by blast
qed



lemma handlerUploadVideo_unauthorized:
  assumes "\<not> owner_request cfg e r w"
  shows "\<exists>code msg. handlerUploadVideo cfg e r w = respondWithError code msg w \<and>
           code \<in> {400, 401, 404}"
proof (cases "uuid_Parse e (PathValue r ''videoID'')")
  case Inl
  then show ?thesis
    by (auto simp: handlerUploadVideo_def)
next
  case videoID: (Inr videoID)
  show ?thesis
  proof (cases "GetBearerToken e (Header r)")
    case Inl
    with videoID show ?thesis
      by (auto simp: handlerUploadVideo_def)
  next
    case token: (Inr token)
    show ?thesis
    proof (cases "ValidateJWT e token (jwtSecret cfg)")
      case Inl
      with videoID token show ?thesis
        by (auto simp: handlerUploadVideo_def)
    next
      case userID: (Inr userID)
      show ?thesis
      proof (cases "db w videoID")
        case None
        with videoID token userID show ?thesis
          by (auto simp: handlerUploadVideo_def GetVideo_def)
      next
        case (Some video)
        with videoID token userID assms have "UserID video \<noteq> userID"
          by (simp add: owner_request_def requested_video_def caller_def)
        with Some videoID token userID show ?thesis
          by (auto simp: handlerUploadVideo_def GetVideo_def)
      qed
    qed
  qed
qed







subsection \<open>The stored location\<close>

lemma nibble_hi: "unat (drop_bit 4 (v :: byte)) < 16"
proof -
  have "unat (drop_bit 4 v) = drop_bit 4 (unat v)"
    by (rule unat_drop_bit_eq)
  also have "\<dots> = unat v div 16"
    by (simp add: drop_bit_eq_div)
  finally have "unat (drop_bit 4 v) = unat v div 16" .
  moreover have "unat v < 256"
    using unsigned_less [of v, where ?'a = nat] by simp
  ultimately show ?thesis by simp
qed

lemma nibble_lo: "unat ((v :: byte) AND 0x0f) < 16"
proof -
  have "v AND 0x0f = take_bit 4 v"
    by (simp add: take_bit_eq_mask mask_eq_exp_minus_1)
  then have "unat (v AND 0x0f) = take_bit 4 (unat v)"
    by (simp add: unsigned_take_bit_eq)
  also have "\<dots> < 2 ^ 4"
    by (rule take_bit_nat_less_exp)
  finally show ?thesis by simp
qed

lemma hextable_no_comma: "n < 16 \<Longrightarrow> CHR '','' \<noteq> hextable ! n"
proof -
  assume "n < 16"
  then have "n \<in> {..<16}" by simp
  then show ?thesis
    by (auto simp: hextable_def lessThan_nat_numeral lessThan_Suc)
qed

lemma hex_no_comma: "CHR '','' \<notin> set (hex_EncodeToString src)"
  by (induction src) (auto simp: hex_EncodeToString_def hextable_no_comma nibble_hi nibble_lo)

lemma split_no_sep: "sep \<notin> set s \<Longrightarrow> strings_Split s sep = [s]"
  by (induction s) auto

lemma split_append:
  "sep \<notin> set a \<Longrightarrow> strings_Split (a @ sep # b) sep = a # strings_Split b sep"
  by (induction a) (auto split: list.splits)

lemma stored_location_no_comma:
  assumes "CHR '','' \<notin> set (s3Bucket cfg)" and "CHR '','' \<notin> set (s3Region cfg)"
  shows "CHR '','' \<notin> set (stored_location cfg e)"
  using assms by (simp add: stored_location_def hex_no_comma)

lemma staged_db_response:
  "(\<exists>msg. response (handlerUploadVideo_staged cfg e video file mediaType p w)
            = Some (500, ErrorBody msg) \<and>
          db (handlerUploadVideo_staged cfg e video file mediaType p w) = db w) \<or>
   (response (handlerUploadVideo_staged cfg e video file mediaType p w)
      = Some (200, VideoBody (video\<lparr>VideoURL := Some (stored_location cfg e)\<rparr>)) \<and>
    db (handlerUploadVideo_staged cfg e video file mediaType p w)
      = (db w)(ID video \<mapsto> video\<lparr>VideoURL := Some (stored_location cfg e)\<rparr>))"
  unfolding handlerUploadVideo_staged_def effect_defs Let_def stored_location_def
  by (simp split: option.splits sum.splits prod.splits)

lemma handlerUploadVideo_db_response:
  "(\<exists>code msg. response (handlerUploadVideo cfg e r w) = Some (code, ErrorBody msg) \<and>
       code \<in> {400, 401, 404, 500} \<and> db (handlerUploadVideo cfg e r w) = db w) \<or>
   (\<exists>videoID video. requested_video e r = Some videoID \<and> db w videoID = Some video \<and>
       response (handlerUploadVideo cfg e r w)
         = Some (200, VideoBody (video\<lparr>VideoURL := Some (stored_location cfg e)\<rparr>)) \<and>
       db (handlerUploadVideo cfg e r w)
         = (db w)(ID video \<mapsto> video\<lparr>VideoURL := Some (stored_location cfg e)\<rparr>))"
proof (cases "owner_request cfg e r w")
  case False
  then obtain code msg where
    "handlerUploadVideo cfg e r w = respondWithError code msg w" "code \<in> {400, 401, 404}"
    using handlerUploadVideo_unauthorized by blast
  then show ?thesis by auto
next
  case True
  then obtain videoID token video where auth:
    "uuid_Parse e (PathValue r ''videoID'') = Inr videoID"
    "GetBearerToken e (Header r) = Inr token"
    "ValidateJWT e token (jwtSecret cfg) = Inr (UserID video)"
    "db w videoID = Some video"
    by (rule owner_requestD)
  show ?thesis
  proof (cases "FormFile (MaxBytesReader r (2 ^ 30)) ''video''")
    case Inl
    with auth show ?thesis
      by (simp add: handlerUploadVideo_def GetVideo_def)
  next
    case upload: (Inr upl)
    show ?thesis
    proof (cases "mime_ParseMediaType e (Header_Get (part_Header upl) ''Content-Type'')")
      case Inl
      with auth upload show ?thesis
        by (simp add: handlerUploadVideo_def GetVideo_def)
    next
      case declared: (Inr mediaType)
      show ?thesis
      proof (cases "mediaType = ''video/mp4''")
        case False
        with auth upload declared show ?thesis
          by (simp add: handlerUploadVideo_def GetVideo_def)
      next
        case mp4: True
        show ?thesis
        proof (cases "CreateTemp e [] ''tubely-upload-*.mp4''")
          case Inl
          with auth upload declared mp4 show ?thesis
            by (simp add: handlerUploadVideo_def GetVideo_def os_CreateTemp_def)
        next
          case (Inr p)
          let ?w1 = "w\<lparr>fs := (fs w)(p \<mapsto> []), opened := LocalFile p # opened w,
                        trace := trace w @ [EvCreateTemp p]\<rparr>"
          from Inr auth upload declared mp4 have shape:
            "handlerUploadVideo cfg e r w
               = file_Close UploadedFile (os_Remove p (file_Close (LocalFile p)
                   (handlerUploadVideo_staged cfg e video upl mediaType p ?w1)))"
            by (simp add: handlerUploadVideo_def GetVideo_def os_CreateTemp_def)
          have "db ?w1 = db w" by simp
          with staged_db_response [of cfg e video upl mediaType p ?w1] shape auth
          show ?thesis
            by (auto simp: requested_video_def)
        qed
      qed
    qed
  qed
qed

text \<open>
  C1, as the code has it. The handler writes a record only when it answers 200, and
  the location it writes is the URL \<open>https://<bucket>.s3.<region>.amazonaws.com/<key>\<close>
  (\<open>stored_location\<close>), not \<open><bucket>,<key>\<close>. With no comma in the bucket and the
  region, that string is a single part under the comma split, so the Signed-URL Generator
  returns the record as it is. The split does recover bucket and key from a string
  \<open><bucket>,<key>\<close> whose two parts hold no comma.
\<close>

theorem handlerUploadVideo_stores_url:
  "(\<forall>b. response (handlerUploadVideo cfg e r w) = Some (200, b) \<longrightarrow>
      (\<exists>videoID video.
         requested_video e r = Some videoID \<and> db w videoID = Some video \<and>
         b = VideoBody (video\<lparr>VideoURL := Some (stored_location cfg e)\<rparr>) \<and>
         db (handlerUploadVideo cfg e r w)
           = (db w)(ID video \<mapsto> video\<lparr>VideoURL := Some (stored_location cfg e)\<rparr>))) \<and>
   ((\<forall>b. response (handlerUploadVideo cfg e r w) \<noteq> Some (200, b)) \<longrightarrow>
      db (handlerUploadVideo cfg e r w) = db w) \<and>
   (CHR '','' \<notin> set (s3Bucket cfg) \<and> CHR '','' \<notin> set (s3Region cfg) \<longrightarrow>
      strings_Split (stored_location cfg e) CHR '','' = [stored_location cfg e] \<and>
      (\<forall>video. dbVideoToSignedVideo cfg (video\<lparr>VideoURL := Some (stored_location cfg e)\<rparr>)
                 = (video\<lparr>VideoURL := Some (stored_location cfg e)\<rparr>, None))) \<and>
   (\<forall>bucket key. CHR '','' \<notin> set bucket \<and> CHR '','' \<notin> set key \<longrightarrow>
      strings_Split (bucket @ '','' @ key) CHR '','' = [bucket, key])"
proof (intro conjI)
  show "\<forall>b. response (handlerUploadVideo cfg e r w) = Some (200, b) \<longrightarrow>
      (\<exists>videoID video.
         requested_video e r = Some videoID \<and> db w videoID = Some video \<and>
         b = VideoBody (video\<lparr>VideoURL := Some (stored_location cfg e)\<rparr>) \<and>
         db (handlerUploadVideo cfg e r w)
           = (db w)(ID video \<mapsto> video\<lparr>VideoURL := Some (stored_location cfg e)\<rparr>))"
    using handlerUploadVideo_db_response [of cfg e r w] by auto
  show "(\<forall>b. response (handlerUploadVideo cfg e r w) \<noteq> Some (200, b)) \<longrightarrow>
      db (handlerUploadVideo cfg e r w) = db w"
    using handlerUploadVideo_db_response [of cfg e r w] by auto
  show "CHR '','' \<notin> set (s3Bucket cfg) \<and> CHR '','' \<notin> set (s3Region cfg) \<longrightarrow>
      strings_Split (stored_location cfg e) CHR '','' = [stored_location cfg e] \<and>
      (\<forall>video. dbVideoToSignedVideo cfg (video\<lparr>VideoURL := Some (stored_location cfg e)\<rparr>)
                 = (video\<lparr>VideoURL := Some (stored_location cfg e)\<rparr>, None))"
    by (simp add: stored_location_no_comma split_no_sep dbVideoToSignedVideo_def)
  show "\<forall>bucket key. CHR '','' \<notin> set bucket \<and> CHR '','' \<notin> set key \<longrightarrow>
      strings_Split (bucket @ '','' @ key) CHR '','' = [bucket, key]"
    by (simp add: split_append split_no_sep)
qed

lemma ex_stored_location:
  "stored_location ex_cfg ex_env
     = ''https://tubely.s3.us-east-1.amazonaws.com/000102030405060708090a0b0c0d0e0f101112131415161718191a1b1c1d1e1f.mp4''"
  by (simp add: stored_location_def ex_cfg_def ex_env_def ex_key)

lemma ex_upload_response:
  "response (handlerUploadVideo ex_cfg ex_env ex_request ex_world)
     = Some (200, VideoBody (ex_video\<lparr>VideoURL := Some (stored_location ex_cfg ex_env)\<rparr>))"
  by (simp add: ex_stored_location) (simp add: video_defs effect_defs ex_defs ex_key)

lemma ex_upload_db:
  "db (handlerUploadVideo ex_cfg ex_env ex_request ex_world) ex_videoID
     = Some (ex_video\<lparr>VideoURL := Some (stored_location ex_cfg ex_env)\<rparr>)"
  by (simp add: ex_stored_location) (simp add: video_defs effect_defs ex_defs ex_key)

theorem handlerUploadVideo_stores_url_witness:
  "response (handlerUploadVideo ex_cfg ex_env ex_request ex_world)
     = Some (200, VideoBody (ex_video\<lparr>VideoURL := Some (stored_location ex_cfg ex_env)\<rparr>)) \<and>
   db (handlerUploadVideo ex_cfg ex_env ex_request ex_world) ex_videoID
     = Some (ex_video\<lparr>VideoURL := Some (stored_location ex_cfg ex_env)\<rparr>) \<and>
   CHR '','' \<notin> set (s3Bucket ex_cfg) \<and> CHR '','' \<notin> set (s3Region ex_cfg) \<and>
   strings_Split (stored_location ex_cfg ex_env) CHR '','' = [stored_location ex_cfg ex_env] \<and>
   dbVideoToSignedVideo ex_cfg (ex_video\<lparr>VideoURL := Some (stored_location ex_cfg ex_env)\<rparr>)
     = (ex_video\<lparr>VideoURL := Some (stored_location ex_cfg ex_env)\<rparr>, None) \<and>
   CHR '','' \<notin> set ''tubely'' \<and> CHR '','' \<notin> set ''k.mp4'' \<and>
   strings_Split (''tubely'' @ '','' @ ''k.mp4'') CHR '','' = [''tubely'', ''k.mp4'']"
proof -
  have commas: "CHR '','' \<notin> set (s3Bucket ex_cfg) \<and> CHR '','' \<notin> set (s3Region ex_cfg)"
    by (simp add: ex_cfg_def)
  have parts: "CHR '','' \<notin> set ''tubely'' \<and> CHR '','' \<notin> set ''k.mp4''"
    by simp
  from handlerUploadVideo_stores_url [of ex_cfg ex_env ex_request ex_world]
    ex_upload_response ex_upload_db commas parts
  show ?thesis
    by blast
qed

theorem handlerUploadVideo_location_counterexample:
  "response (handlerUploadVideo ex_cfg ex_env ex_request ex_world)
     = Some (200, VideoBody (ex_video\<lparr>VideoURL := Some
         ''https://tubely.s3.us-east-1.amazonaws.com/000102030405060708090a0b0c0d0e0f101112131415161718191a1b1c1d1e1f.mp4''\<rparr>)) \<and>
   db (handlerUploadVideo ex_cfg ex_env ex_request ex_world) ex_videoID
     = Some (ex_video\<lparr>VideoURL := Some
         ''https://tubely.s3.us-east-1.amazonaws.com/000102030405060708090a0b0c0d0e0f101112131415161718191a1b1c1d1e1f.mp4''\<rparr>) \<and>
   s3 (handlerUploadVideo ex_cfg ex_env ex_request ex_world)
      (''tubely'', ''000102030405060708090a0b0c0d0e0f101112131415161718191a1b1c1d1e1f.mp4'')
     = Some ([0, 0, 0, 32], ''video/mp4'') \<and>
   strings_Split
      ''https://tubely.s3.us-east-1.amazonaws.com/000102030405060708090a0b0c0d0e0f101112131415161718191a1b1c1d1e1f.mp4''
      CHR '',''
     \<noteq> [''tubely'', ''000102030405060708090a0b0c0d0e0f101112131415161718191a1b1c1d1e1f.mp4''] \<and>
   length (strings_Split
      ''https://tubely.s3.us-east-1.amazonaws.com/000102030405060708090a0b0c0d0e0f101112131415161718191a1b1c1d1e1f.mp4''
      CHR '','') \<noteq> 2"
proof -
  have "s3 (handlerUploadVideo ex_cfg ex_env ex_request ex_world)
      (''tubely'', ''000102030405060708090a0b0c0d0e0f101112131415161718191a1b1c1d1e1f.mp4'')
     = Some ([0, 0, 0, 32], ''video/mp4'')"
    by (simp add: video_defs effect_defs ex_defs ex_key)
  moreover have "strings_Split
      ''https://tubely.s3.us-east-1.amazonaws.com/000102030405060708090a0b0c0d0e0f101112131415161718191a1b1c1d1e1f.mp4''
      CHR '',''
     = [''https://tubely.s3.us-east-1.amazonaws.com/000102030405060708090a0b0c0d0e0f101112131415161718191a1b1c1d1e1f.mp4'']"
    by (simp add: split_no_sep)
  ultimately show ?thesis
    using ex_upload_response ex_upload_db by (simp add: ex_stored_location)
qed



section \<open>Ownership\<close>












section \<open>Properties of the thumbnail upload handlers\<close>

lemma thumbnail_store_trace:
  "trace (thumbnail_store cfg e video file filename path w) = trace w @ store_events e video path"
  unfolding thumbnail_store_def effect_defs Let_def store_events_def
  by (simp split: option.splits prod.splits)

lemma thumbnail_store_update_fails:
  assumes "UpdateVideo_err e = Some err"
    and "EvUpdateVideo vid \<in> set (store_events e video path)"
  shows "db (thumbnail_store cfg e video file filename path w) = db w \<and>
         fs (thumbnail_store cfg e video file filename path w) path = None \<and>
         response (thumbnail_store cfg e video file filename path w)
           = Some (500, ErrorBody ''Couldn't update video'') \<and>
         store_events e video path
           = [EvCreate path, EvCopy path, EvUpdateVideo vid, EvRemove path, EvRespond 500,
              EvClose (LocalFile path)]"
  using assms
  unfolding thumbnail_store_def effect_defs Let_def store_events_def
  by (simp split: option.splits prod.splits if_splits)

lemma byID_trace:
  "\<exists>es. trace (handlerUploadThumbnail_byID cfg e r w) = trace w @ es \<and>
     (\<forall>vid. EvUpdateVideo vid \<in> set es \<longrightarrow>
        (\<exists>video file filename path.
           es = store_events e video path @ [EvClose UploadedFile] \<and>
           handlerUploadThumbnail_byID cfg e r w
             = file_Close UploadedFile (thumbnail_store cfg e video file filename path w)))"
  unfolding handlerUploadThumbnail_byID_def Let_def
  by (auto simp: thumbnail_store_trace GetVideo_def split: sum.splits option.splits)

lemma random_trace:
  "\<exists>es. trace (handlerUploadThumbnail_random cfg e r w) = trace w @ es \<and>
     (\<forall>vid. EvUpdateVideo vid \<in> set es \<longrightarrow>
        (\<exists>video file filename path.
           es = store_events e video path @ [EvClose UploadedFile] \<and>
           handlerUploadThumbnail_random cfg e r w
             = file_Close UploadedFile (thumbnail_store cfg e video file filename path w)))"
  unfolding handlerUploadThumbnail_random_def Let_def
  by (auto simp: thumbnail_store_trace GetVideo_def rand_Read_def split: sum.splits option.splits)

text \<open>
  C7. In both handlers that write the thumbnail into the assets directory, when the
  metadata-store update is attempted and fails, the effects of the request are exactly:
  create the file, copy the upload into it, the failed update, remove the file, respond 500,
  and the two deferred closes. The file is gone when the handler returns and the store is
  unchanged.
\<close>

theorem thumbnail_cleanup_on_update_failure:
  assumes "h = handlerUploadThumbnail_byID \<or> h = handlerUploadThumbnail_random"
    and "UpdateVideo_err e = Some err"
    and "EvUpdateVideo vid \<in> set (new_events w (h cfg e r w))"
  shows "\<exists>path.
           new_events w (h cfg e r w)
             = [EvCreate path, EvCopy path, EvUpdateVideo vid, EvRemove path, EvRespond 500,
                EvClose (LocalFile path), EvClose UploadedFile] \<and>
           fs (h cfg e r w) path = None \<and>
           response (h cfg e r w) = Some (500, ErrorBody ''Couldn't update video'') \<and>
           db (h cfg e r w) = db w"
proof -
  from assms(1) byID_trace [of cfg e r w] random_trace [of cfg e r w]
  obtain es where es: "trace (h cfg e r w) = trace w @ es"
    and stored: "\<forall>vid. EvUpdateVideo vid \<in> set es \<longrightarrow>
        (\<exists>video file filename path.
           es = store_events e video path @ [EvClose UploadedFile] \<and>
           h cfg e r w = file_Close UploadedFile (thumbnail_store cfg e video file filename path w))"
    by blast
  have new: "new_events w (h cfg e r w) = es"
    by (simp add: new_events_def es)
  with assms(3) have attempted: "EvUpdateVideo vid \<in> set es" by simp
  with stored obtain video upl filename path where
    shape: "es = store_events e video path @ [EvClose UploadedFile]"
    and result: "h cfg e r w
                   = file_Close UploadedFile (thumbnail_store cfg e video upl filename path w)"
    by blast
  from attempted shape have "EvUpdateVideo vid \<in> set (store_events e video path)"
    by simp
  from thumbnail_store_update_fails [OF assms(2) this, of cfg upl filename w]
  have "db (thumbnail_store cfg e video upl filename path w) = db w"
    and "fs (thumbnail_store cfg e video upl filename path w) path = None"
    and "response (thumbnail_store cfg e video upl filename path w)
           = Some (500, ErrorBody ''Couldn't update video'')"
    and "store_events e video path
           = [EvCreate path, EvCopy path, EvUpdateVideo vid, EvRemove path, EvRespond 500,
              EvClose (LocalFile path)]"
    by simp_all
  with new shape result show ?thesis
    by simp
qed

lemma ex_uuid:
  "ex_uuid_String ex_videoID = ''07070707-0707-0707-0707-070707070707''"
  by code_simp

lemma ex_name:
  "base64_RawURLEncoding (map of_nat [0..<32]) = ''AAECAwQFBgcICQoLDA0ODxAREhMUFRYXGBkaGxwdHh8''"
  by code_simp

lemma ex_update_fails_byID:
  "new_events ex_world
     (handlerUploadThumbnail_byID ex_cfg (ex_env\<lparr>UpdateVideo_err := Some ''database is locked''\<rparr>)
        ex_request ex_world)
     = [EvCreate ''assets/07070707-0707-0707-0707-070707070707.png'',
        EvCopy ''assets/07070707-0707-0707-0707-070707070707.png'',
        EvUpdateVideo ex_videoID,
        EvRemove ''assets/07070707-0707-0707-0707-070707070707.png'',
        EvRespond 500,
        EvClose (LocalFile ''assets/07070707-0707-0707-0707-070707070707.png''),
        EvClose UploadedFile]"
  by (simp add: new_events_def handlerUploadThumbnail_byID_def thumbnail_store_def Let_def
        effect_defs ex_cfg_def ex_env_def ex_request_def ex_world_def ex_video_def ex_png_def
        ex_uuid)

lemma ex_update_fails_random:
  "new_events ex_world
     (handlerUploadThumbnail_random ex_cfg (ex_env\<lparr>UpdateVideo_err := Some ''database is locked''\<rparr>)
        ex_request ex_world)
     = [EvCreate ''assets/AAECAwQFBgcICQoLDA0ODxAREhMUFRYXGBkaGxwdHh8.png'',
        EvCopy ''assets/AAECAwQFBgcICQoLDA0ODxAREhMUFRYXGBkaGxwdHh8.png'',
        EvUpdateVideo ex_videoID,
        EvRemove ''assets/AAECAwQFBgcICQoLDA0ODxAREhMUFRYXGBkaGxwdHh8.png'',
        EvRespond 500,
        EvClose (LocalFile ''assets/AAECAwQFBgcICQoLDA0ODxAREhMUFRYXGBkaGxwdHh8.png''),
        EvClose UploadedFile]"
  by (simp add: new_events_def handlerUploadThumbnail_random_def thumbnail_store_def Let_def
        effect_defs ex_cfg_def ex_env_def ex_request_def ex_world_def ex_video_def ex_png_def
        ex_name)

theorem thumbnail_cleanup_on_update_failure_witness:
  "UpdateVideo_err (ex_env\<lparr>UpdateVideo_err := Some ''database is locked''\<rparr>)
     = Some ''database is locked'' \<and>
   EvUpdateVideo ex_videoID
     \<in> set (new_events ex_world
           (handlerUploadThumbnail_byID ex_cfg
              (ex_env\<lparr>UpdateVideo_err := Some ''database is locked''\<rparr>) ex_request ex_world)) \<and>
   EvUpdateVideo ex_videoID
     \<in> set (new_events ex_world
           (handlerUploadThumbnail_random ex_cfg
              (ex_env\<lparr>UpdateVideo_err := Some ''database is locked''\<rparr>) ex_request ex_world)) \<and>
   fs (handlerUploadThumbnail_byID ex_cfg
         (ex_env\<lparr>UpdateVideo_err := Some ''database is locked''\<rparr>) ex_request ex_world)
      ''assets/07070707-0707-0707-0707-070707070707.png'' = None \<and>
   fs (handlerUploadThumbnail_random ex_cfg
         (ex_env\<lparr>UpdateVideo_err := Some ''database is locked''\<rparr>) ex_request ex_world)
      ''assets/AAECAwQFBgcICQoLDA0ODxAREhMUFRYXGBkaGxwdHh8.png'' = None \<and>
   response (handlerUploadThumbnail_byID ex_cfg
         (ex_env\<lparr>UpdateVideo_err := Some ''database is locked''\<rparr>) ex_request ex_world)
     = Some (500, ErrorBody ''Couldn't update video'') \<and>
   response (handlerUploadThumbnail_random ex_cfg
         (ex_env\<lparr>UpdateVideo_err := Some ''database is locked''\<rparr>) ex_request ex_world)
     = Some (500, ErrorBody ''Couldn't update video'')"
proof -
  let ?e = "ex_env\<lparr>UpdateVideo_err := Some ''database is locked''\<rparr>"
  have fails: "UpdateVideo_err ?e = Some ''database is locked''"
    by simp
  have byID: "EvUpdateVideo ex_videoID
      \<in> set (new_events ex_world (handlerUploadThumbnail_byID ex_cfg ?e ex_request ex_world))"
    by (simp add: ex_update_fails_byID)
  have random: "EvUpdateVideo ex_videoID
      \<in> set (new_events ex_world (handlerUploadThumbnail_random ex_cfg ?e ex_request ex_world))"
    by (simp add: ex_update_fails_random)
  from thumbnail_cleanup_on_update_failure
         [of handlerUploadThumbnail_byID, OF _ fails byID]
  have 1: "fs (handlerUploadThumbnail_byID ex_cfg ?e ex_request ex_world)
             ''assets/07070707-0707-0707-0707-070707070707.png'' = None \<and>
           response (handlerUploadThumbnail_byID ex_cfg ?e ex_request ex_world)
             = Some (500, ErrorBody ''Couldn't update video'')"
    by (auto simp: ex_update_fails_byID)
  from thumbnail_cleanup_on_update_failure
         [of handlerUploadThumbnail_random, OF _ fails random]
  have 2: "fs (handlerUploadThumbnail_random ex_cfg ?e ex_request ex_world)
             ''assets/AAECAwQFBgcICQoLDA0ODxAREhMUFRYXGBkaGxwdHh8.png'' = None \<and>
           response (handlerUploadThumbnail_random ex_cfg ?e ex_request ex_world)
             = Some (500, ErrorBody ''Couldn't update video'')"
    by (auto simp: ex_update_fails_random)
  from fails byID random 1 2 show ?thesis
    by blast
qed

text \<open>
  C10. The handler that stores the thumbnail as an inline data URL never looks at the
  declared content type: for the owner of an existing video whose upload is read, whatever
  the \<open>Content-Type\<close> of the part (the empty string when there is none), the answer is 200
  with the record whose thumbnail is \<open>data:<that string>;base64,<content>\<close>, which is
  also what the store then holds; the only other outcome is 500 when the store update fails.
\<close>

theorem inline_thumbnail_accepts_any_type:
  assumes "requested_video e r = Some videoID"
    and "caller cfg e r = Some (UserID video)"
    and "db w videoID = Some video"
    and "FormFile r ''thumbnail'' = Inr upl"
    and "ReadAll_err e = None"
  shows "response (handlerUploadThumbnail_inline cfg e r w)
           = Some (if UpdateVideo_err e = None
                   then (200, VideoBody (video\<lparr>ThumbnailURL :=
                           Some (''data:'' @ Header_Get (part_Header upl) ''Content-Type''
                                 @ '';base64,'' @ base64_StdEncoding (part_data upl))\<rparr>))
                   else (500, ErrorBody ''Couldn't update video'')) \<and>
         db (handlerUploadThumbnail_inline cfg e r w)
           = (if UpdateVideo_err e = None
              then (db w)(ID video \<mapsto> video\<lparr>ThumbnailURL :=
                           Some (''data:'' @ Header_Get (part_Header upl) ''Content-Type''
                                 @ '';base64,'' @ base64_StdEncoding (part_data upl))\<rparr>)
              else db w)"
proof -
  from assms(1,2) obtain token where auth:
    "uuid_Parse e (PathValue r ''videoID'') = Inr videoID"
    "GetBearerToken e (Header r) = Inr token"
    "ValidateJWT e token (jwtSecret cfg) = Inr (UserID video)"
    by (rule callerD)
  from assms(4) obtain f where parsed: "ParseMultipartForm r = Inr f"
    by (auto simp: FormFile_def split: sum.splits)
  from auth parsed assms(3,4,5) show ?thesis
    by (cases "UpdateVideo_err e")
       (simp_all add: handlerUploadThumbnail_inline_def GetVideo_def UpdateVideo_def
          respondWithJSON_def Let_def)
qed

lemma ex_base64: "base64_StdEncoding [104, 105] = ''aGk=''"
  by code_simp

theorem inline_thumbnail_accepts_any_type_witness:
  "requested_video ex_env (ex_request\<lparr>form := Inr [''thumbnail'' \<mapsto> ex_text]\<rparr>) = Some ex_videoID \<and>
   caller ex_cfg ex_env (ex_request\<lparr>form := Inr [''thumbnail'' \<mapsto> ex_text]\<rparr>)
     = Some (UserID ex_video) \<and>
   db ex_world ex_videoID = Some ex_video \<and>
   FormFile (ex_request\<lparr>form := Inr [''thumbnail'' \<mapsto> ex_text]\<rparr>) ''thumbnail'' = Inr ex_text \<and>
   ReadAll_err ex_env = None \<and>
   response (handlerUploadThumbnail_inline ex_cfg ex_env
               (ex_request\<lparr>form := Inr [''thumbnail'' \<mapsto> ex_text]\<rparr>) ex_world)
     = Some (200, VideoBody (ex_video\<lparr>ThumbnailURL := Some ''data:text/plain;base64,aGk=''\<rparr>)) \<and>
   db (handlerUploadThumbnail_inline ex_cfg ex_env
         (ex_request\<lparr>form := Inr [''thumbnail'' \<mapsto> ex_text]\<rparr>) ex_world) ex_videoID
     = Some (ex_video\<lparr>ThumbnailURL := Some ''data:text/plain;base64,aGk=''\<rparr>)"
proof -
  let ?r = "ex_request\<lparr>form := Inr [''thumbnail'' \<mapsto> ex_text]\<rparr>"
  have 1: "requested_video ex_env ?r = Some ex_videoID"
    by (simp add: requested_video_def ex_defs)
  have 2: "caller ex_cfg ex_env ?r = Some (UserID ex_video)"
    by (simp add: caller_def ex_defs)
  have 3: "db ex_world ex_videoID = Some ex_video"
    by (simp add: ex_world_def)
  have 4: "FormFile ?r ''thumbnail'' = Inr ex_text"
    by (simp add: FormFile_def ParseMultipartForm_def ex_request_def)
  have 5: "ReadAll_err ex_env = None"
    by (simp add: ex_env_def)
  have ok: "UpdateVideo_err ex_env = None"
    by (simp add: ex_env_def)
  have url: "''data:'' @ Header_Get (part_Header ex_text) ''Content-Type'' @ '';base64,''
               @ base64_StdEncoding (part_data ex_text) = ''data:text/plain;base64,aGk=''"
    by (simp add: Header_Get_def ex_text_def ex_base64)
  have "ID ex_video = ex_videoID"
    by (simp add: ex_video_def)
  with inline_thumbnail_accepts_any_type [OF 1 2 3 4 5] ok url 1 2 3 4 5
  show ?thesis
    by simp
qed



section \<open>Properties of the float64 operations\<close>

text \<open>
  The rounding is the one of IEEE 754: \<open>floor_log2\<close> is the binary exponent of the
  quotient, \<open>round_half_even\<close> a nearest integer (the even one on a tie), and within
  the normal range \<open>round_float64\<close> gives a significand of 53 bits at most half a unit
  in the last place from the exact quotient.
\<close>

lemma two_powr_int: "2 powr real_of_int n = (if 0 \<le> n then 2 ^ nat n else inverse (2 ^ nat (- n)))"
  by (simp add: powr_real_of_int)

lemma floor_log2_test:
  assumes "0 < b"
  shows "(if 0 \<le> d then b * 2 ^ nat d \<le> a else b \<le> a * 2 ^ nat (- d))
           = (2 powr real_of_int d \<le> real_of_int a / real_of_int b)"
proof (cases "0 \<le> d")
  case True
  have "(b * 2 ^ nat d \<le> a) = (real_of_int (b * 2 ^ nat d) \<le> real_of_int a)"
    by (simp only: of_int_le_iff)
  also have "\<dots> = (2 ^ nat d \<le> real_of_int a / real_of_int b)"
    using assms by (simp add: pos_le_divide_eq mult.commute)
  finally show ?thesis
    using True by (simp add: two_powr_int)
next
  case False
  have "(b \<le> a * 2 ^ nat (- d)) = (real_of_int b \<le> real_of_int (a * 2 ^ nat (- d)))"
    by (simp only: of_int_le_iff)
  also have "\<dots> = (inverse (2 ^ nat (- d)) \<le> real_of_int a / real_of_int b)"
    using assms by (simp add: field_simps)
  finally show ?thesis
    using False by (simp add: two_powr_int)
qed

lemma bitlen_powr_bounds:
  assumes "0 < a"
  shows "2 powr real_of_int (bitlen a - 1) \<le> real_of_int a"
    and "real_of_int a < 2 powr real_of_int (bitlen a)"
proof -
  have pos: "1 \<le> bitlen a"
    using assms by (simp add: bitlen_alt_def)
  have "2 ^ nat (bitlen a - 1) \<le> a" and "a < 2 ^ nat (bitlen a)"
    using bitlen_bounds [OF assms] by simp_all
  then have "real_of_int (2 ^ nat (bitlen a - 1)) \<le> real_of_int a"
    and "real_of_int a < real_of_int (2 ^ nat (bitlen a))"
    by (simp_all only: of_int_le_iff of_int_less_iff)
  moreover have "2 powr real_of_int (bitlen a - 1) = real_of_int (2 ^ nat (bitlen a - 1))"
    using pos by (subst two_powr_int) simp
  moreover have "2 powr real_of_int (bitlen a) = real_of_int (2 ^ nat (bitlen a))"
    using pos by (subst two_powr_int) simp
  ultimately show "2 powr real_of_int (bitlen a - 1) \<le> real_of_int a"
    and "real_of_int a < 2 powr real_of_int (bitlen a)"
    by simp_all
qed

lemma floor_log2_bounds:
  assumes "0 < a" and "0 < b"
  shows "2 powr real_of_int (floor_log2 a b) \<le> real_of_int a / real_of_int b"
    and "real_of_int a / real_of_int b < 2 powr real_of_int (floor_log2 a b + 1)"
proof -
  define d where "d = bitlen a - bitlen b"
  note a = bitlen_powr_bounds [OF assms(1)]
  note b = bitlen_powr_bounds [OF assms(2)]
  have "real_of_int a / real_of_int b < 2 powr real_of_int (bitlen a) / 2 powr real_of_int (bitlen b - 1)"
    using a(2) b(1) assms by (intro frac_less) simp_all
  also have "\<dots> = 2 powr real_of_int (d + 1)"
    by (simp add: d_def powr_diff [symmetric] algebra_simps)
  finally have upper: "real_of_int a / real_of_int b < 2 powr real_of_int (d + 1)" .
  have "2 powr real_of_int (d - 1) = 2 powr real_of_int (bitlen a - 1) / 2 powr real_of_int (bitlen b)"
    by (simp add: d_def powr_diff [symmetric] algebra_simps)
  also have "\<dots> \<le> real_of_int a / real_of_int b"
    using a(1) b(2) assms by (intro frac_le) simp_all
  finally have lower: "2 powr real_of_int (d - 1) \<le> real_of_int a / real_of_int b" .
  have fl: "floor_log2 a b = (if 2 powr real_of_int d \<le> real_of_int a / real_of_int b then d else d - 1)"
    unfolding floor_log2_def Let_def d_def [symmetric]
    by (simp only: floor_log2_test [OF assms(2)])
  show "2 powr real_of_int (floor_log2 a b) \<le> real_of_int a / real_of_int b"
    using lower by (simp add: fl)
  show "real_of_int a / real_of_int b < 2 powr real_of_int (floor_log2 a b + 1)"
    using upper by (auto simp: fl)
qed


lemma round_half_even_nearest:
  assumes "0 < b"
  shows "2 * \<bar>round_half_even a b * b - a\<bar> \<le> b"
proof -
  define q where "q = a div b"
  define r where "r = a mod b"
  have a: "a = q * b + r"
    by (simp add: q_def r_def)
  have r: "0 \<le> r" "r < b"
    using assms by (simp_all add: r_def)
  have up: "(q + 1) * b - a = b - r"
    by (simp add: a algebra_simps)
  have down: "q * b - a = - r"
    by (simp add: a)
  show ?thesis
    unfolding round_half_even_def Let_def q_def [symmetric] r_def [symmetric]
    using r up down by (auto simp: abs_if)
qed

lemma round_float64_nearest:
  assumes "0 < a" and "0 < b"
    and "- 1022 \<le> floor_log2 a b" and "floor_log2 a b < 1023"
  shows "\<exists>m. round_float64 a b = Finite m (floor_log2 a b - 52) \<and>
             2 ^ 52 \<le> m \<and> m \<le> 2 ^ 53 \<and>
             \<bar>real_of_int m * 2 powr real_of_int (floor_log2 a b - 52)
                - real_of_int a / real_of_int b\<bar>
               \<le> 2 powr real_of_int (floor_log2 a b - 52) / 2"
proof -
  define e where "e = floor_log2 a b - 52"
  define x where "x = real_of_int a / real_of_int b"
  define num where "num = (if 0 \<le> e then a else a * 2 ^ nat (- e))"
  define den where "den = (if 0 \<le> e then b * 2 ^ nat e else b)"
  define m where "m = round_half_even num den"
  define q where "q = x / 2 powr real_of_int e"
  have den: "0 < den"
    using assms(2) by (simp add: den_def)
  have q_frac: "real_of_int num / real_of_int den = q"
    by (cases "0 \<le> e") (simp_all add: num_def den_def q_def x_def two_powr_int field_simps)
  have "2 * \<bar>m * den - num\<bar> \<le> den"
    unfolding m_def by (rule round_half_even_nearest [OF den])
  then have "real_of_int (2 * \<bar>m * den - num\<bar>) \<le> real_of_int den"
    by (simp only: of_int_le_iff)
  then have "2 * \<bar>real_of_int m * real_of_int den - real_of_int num\<bar> \<le> real_of_int den"
    by simp
  then have "2 * \<bar>real_of_int m - real_of_int num / real_of_int den\<bar> * real_of_int den
               \<le> 1 * real_of_int den"
    using den by (simp add: abs_mult [symmetric] left_diff_distrib abs_if field_simps split: if_splits)
  then have near: "\<bar>real_of_int m - q\<bar> \<le> 1 / 2"
    using den q_frac by simp
  have "2 powr real_of_int (floor_log2 a b) \<le> x" and "x < 2 powr real_of_int (floor_log2 a b + 1)"
    unfolding x_def by (rule floor_log2_bounds [OF assms(1,2)])+
  then have "2 powr real_of_int (floor_log2 a b) / 2 powr real_of_int e \<le> q"
    and "q < 2 powr real_of_int (floor_log2 a b + 1) / 2 powr real_of_int e"
    by (simp_all add: q_def divide_right_mono divide_strict_right_mono)
  then have "2 powr 52 \<le> q" and "q < 2 powr 53"
    by (simp_all add: e_def powr_diff [symmetric] algebra_simps)
  then have q: "2 ^ 52 \<le> q" "q < 2 ^ 53"
    by (simp_all add: powr_numeral)
  from near have "q - 1 / 2 \<le> real_of_int m" and "real_of_int m \<le> q + 1 / 2"
    by linarith+
  with q have "4503599627370495 < real_of_int m" and "real_of_int m < 9007199254740993"
    by simp_all
  then have "4503599627370495 < m" and "m < 9007199254740993"
    by simp_all
  then have m: "2 ^ 52 \<le> m" "m \<le> 2 ^ 53"
    by simp_all
  have e_eq: "max (floor_log2 a b - 52) (- 1074) = e"
    using assms(3) by (simp add: e_def)
  have abs_a: "\<bar>a\<bar> = a"
    using assms(1) by simp
  have small: "e < 971"
    using assms(4) by (simp add: e_def)
  have result: "round_float64 a b = Finite m e"
    using assms(1) small
    unfolding round_float64_def Let_def abs_a e_eq m_def num_def den_def
    by simp
  have "real_of_int m * 2 powr real_of_int e - x = (real_of_int m - q) * 2 powr real_of_int e"
    by (simp add: q_def left_diff_distrib)
  then have "\<bar>real_of_int m * 2 powr real_of_int e - x\<bar>
               = \<bar>real_of_int m - q\<bar> * 2 powr real_of_int e"
    by (simp add: abs_mult)
  also have "\<dots> \<le> 1 / 2 * 2 powr real_of_int e"
    using near by (intro mult_right_mono) simp_all
  finally have "\<bar>real_of_int m * 2 powr real_of_int e - x\<bar> \<le> 2 powr real_of_int e / 2"
    by simp
  with result m show ?thesis
    unfolding e_def x_def by blast
qed

text \<open>
  A quotient between two powers of two in the normal range is rounded to a finite value
  with a relative error of at most \<open>2 ^ -53\<close>, whatever its sign.
\<close>

lemma floor_log2_range:
  assumes "0 < a" and "0 < b"
    and "2 powr real_of_int L \<le> real_of_int a / real_of_int b"
    and "real_of_int a / real_of_int b < 2 powr real_of_int U"
  shows "L \<le> floor_log2 a b" and "floor_log2 a b < U"
proof -
  note fl = floor_log2_bounds [OF assms(1,2)]
  from assms(3) fl(2) have "2 powr real_of_int L < 2 powr real_of_int (floor_log2 a b + 1)"
    by (rule le_less_trans)
  then have "real_of_int L < real_of_int (floor_log2 a b + 1)"
    by simp
  then show "L \<le> floor_log2 a b"
    by linarith
  from fl(1) assms(4) have "2 powr real_of_int (floor_log2 a b) < 2 powr real_of_int U"
    by (rule le_less_trans)
  then have "real_of_int (floor_log2 a b) < real_of_int U"
    by simp
  then show "floor_log2 a b < U"
    by linarith
qed

lemma round_float64_pos:
  assumes "0 < a" and "0 < b"
    and "2 powr real_of_int L \<le> real_of_int a / real_of_int b"
    and "real_of_int a / real_of_int b < 2 powr real_of_int U"
    and "- 1022 \<le> L" and "U \<le> 1023"
  shows "\<exists>m e. round_float64 a b = Finite m e \<and> 0 < m \<and> L - 52 \<le> e \<and> e < U - 52 \<and>
           \<bar>real_of_int m * 2 powr real_of_int e - real_of_int a / real_of_int b\<bar>
             \<le> (real_of_int a / real_of_int b) / 2 ^ 53"
proof -
  define x where "x = real_of_int a / real_of_int b"
  note range = floor_log2_range [OF assms(1,2,3,4)]
  from range assms(5,6) have "- 1022 \<le> floor_log2 a b" and "floor_log2 a b < 1023"
    by simp_all
  from round_float64_nearest [OF assms(1,2) this]
  obtain m where m: "round_float64 a b = Finite m (floor_log2 a b - 52)"
    "2 ^ 52 \<le> m"
    "\<bar>real_of_int m * 2 powr real_of_int (floor_log2 a b - 52) - x\<bar>
       \<le> 2 powr real_of_int (floor_log2 a b - 52) / 2"
    unfolding x_def by blast
  have "2 powr real_of_int (floor_log2 a b - 52) = 2 powr real_of_int (floor_log2 a b) / 2 ^ 52"
    by (simp add: powr_diff powr_numeral)
  also have "\<dots> \<le> x / 2 ^ 52"
    using floor_log2_bounds(1) [OF assms(1,2)] by (simp add: x_def divide_right_mono)
  finally have "2 powr real_of_int (floor_log2 a b - 52) / 2 \<le> x / 2 ^ 53"
    by simp
  with m(3) have "\<bar>real_of_int m * 2 powr real_of_int (floor_log2 a b - 52) - x\<bar> \<le> x / 2 ^ 53"
    by linarith
  moreover from m(2) have "0 < m" by simp
  ultimately show ?thesis
    using m(1) range unfolding x_def by auto
qed


lemma round_float64_neg:
  assumes "0 < a"
  shows "round_float64 (- a) b
           = (case round_float64 a b of
                Finite m e \<Rightarrow> Finite (- m) e
              | Infinity s \<Rightarrow> Infinity True
              | NaN \<Rightarrow> NaN)"
proof -
  define e where "e = max (floor_log2 a b - 52) (- 1074)"
  define m where "m = (if 0 \<le> e then round_half_even a (b * 2 ^ nat e)
                       else round_half_even (a * 2 ^ nat (- e)) b)"
  define over where "over = (971 < e \<or> (e = 971 \<and> 2 ^ 53 \<le> m))"
  have facts: "\<bar>- a\<bar> = a" "\<bar>a\<bar> = a" "(- a = 0) = False" "(a = 0) = False"
    "(- a < 0) = True" "(a < 0) = False"
    using assms by simp_all
  have pos: "round_float64 a b = (if over then Infinity False else Finite m e)"
    unfolding round_float64_def Let_def facts over_def m_def e_def
    by (simp only: if_False)
  have neg: "round_float64 (- a) b = (if over then Infinity True else Finite (- m) e)"
    unfolding round_float64_def Let_def facts over_def m_def e_def
    by (simp only: if_False if_True)
  show ?thesis
    by (cases over) (simp_all add: pos neg)
qed

lemma round_float64_rel:
  assumes "0 < b" and "a \<noteq> 0"
    and "2 powr real_of_int L \<le> \<bar>real_of_int a / real_of_int b\<bar>"
    and "\<bar>real_of_int a / real_of_int b\<bar> < 2 powr real_of_int U"
    and "- 1022 \<le> L" and "U \<le> 1023"
  shows "\<exists>m e. round_float64 a b = Finite m e \<and> L - 52 \<le> e \<and> e < U - 52 \<and>
           \<bar>real_of_int m * 2 powr real_of_int e - real_of_int a / real_of_int b\<bar>
             \<le> \<bar>real_of_int a / real_of_int b\<bar> / 2 ^ 53"
proof (cases "0 < a")
  case True
  with assms(1) have "\<bar>real_of_int a / real_of_int b\<bar> = real_of_int a / real_of_int b"
    by simp
  with round_float64_pos [OF True assms(1), of L U] assms(3-6) show ?thesis
    by auto
next
  case False
  with assms(2) have pos: "0 < - a" by simp
  with assms(1) have abs: "\<bar>real_of_int a / real_of_int b\<bar> = real_of_int (- a) / real_of_int b"
    by (simp add: abs_if field_simps)
  from round_float64_pos [OF pos assms(1), of L U] assms(3-6) abs
  obtain m e where me: "round_float64 (- a) b = Finite m e" "L - 52 \<le> e" "e < U - 52"
    "\<bar>real_of_int m * 2 powr real_of_int e - real_of_int (- a) / real_of_int b\<bar>
       \<le> (real_of_int (- a) / real_of_int b) / 2 ^ 53"
    by auto
  have "round_float64 a b = Finite (- m) e"
    using round_float64_neg [OF pos, of b] me(1) by simp
  moreover have "\<bar>real_of_int (- m) * 2 powr real_of_int e - real_of_int a / real_of_int b\<bar>
                   = \<bar>real_of_int m * 2 powr real_of_int e - real_of_int (- a) / real_of_int b\<bar>"
    by (simp add: abs_if)
  ultimately show ?thesis
    using me(2,3,4) abs by auto
qed

text \<open>An integer below \<open>2 ^ 53\<close> is converted without rounding.\<close>

lemma round_half_even_one: "round_half_even a 1 = a"
  by (simp add: round_half_even_def Let_def)

lemma float64_of_int_exact:
  assumes "0 < n" and "n < 2 ^ 53"
  shows "\<exists>m e. float64_of_int n = Finite m e \<and> 0 < m \<and> - 52 \<le> e \<and> e \<le> 0 \<and>
           real_of_int m * 2 powr real_of_int e = real_of_int n"
proof -
  define e where "e = floor_log2 n 1 - 52"
  have "2 powr real_of_int 0 \<le> real_of_int n / real_of_int 1"
    using assms(1) by simp
  moreover have "real_of_int n / real_of_int 1 < 2 powr real_of_int 53"
    using assms(2) by (simp add: powr_numeral)
  ultimately have "0 \<le> floor_log2 n 1" and "floor_log2 n 1 < 53"
    using floor_log2_range [of n 1 0 53] assms(1) by simp_all
  then have e: "- 52 \<le> e" "e \<le> 0"
    by (simp_all add: e_def)
  then have e_eq: "max (floor_log2 n 1 - 52) (- 1074) = e"
    by (simp add: e_def)
  have abs_n: "\<bar>n\<bar> = n"
    using assms(1) by simp
  have "float64_of_int n = Finite (n * 2 ^ nat (- e)) e"
    using assms(1) e
    unfolding float64_of_int_def round_float64_def Let_def abs_n e_eq
    by (auto simp: round_half_even_one)
  moreover have "real_of_int (n * 2 ^ nat (- e)) * 2 powr real_of_int e = real_of_int n"
    using e by (cases "e = 0") (simp_all add: two_powr_int)
  moreover have "0 < n * 2 ^ nat (- e)"
    using assms(1) by simp
  ultimately show ?thesis
    using e by blast
qed

text \<open>
  Division and subtraction round the exact quotient and the exact difference of the values
  of their operands; the comparison is the comparison of the values.
\<close>

lemma powr_quotient:
  "2 powr real_of_int e1 / 2 powr real_of_int e2 = 2 ^ nat (e1 - e2) / 2 ^ nat (e2 - e1)"
proof -
  have "2 powr real_of_int e1 / 2 powr real_of_int e2 = 2 powr real_of_int (e1 - e2)"
    by (simp add: powr_diff)
  also have "\<dots> = (if 0 \<le> e1 - e2 then 2 ^ nat (e1 - e2) else inverse (2 ^ nat (- (e1 - e2))))"
    by (rule two_powr_int)
  also have "\<dots> = 2 ^ nat (e1 - e2) / 2 ^ nat (e2 - e1)"
    by (simp add: divide_inverse)
  finally show ?thesis .
qed

lemma float64_div_value:
  assumes "0 < m2"
  shows "float64_div (Finite m1 e1) (Finite m2 e2)
           = round_float64 (m1 * 2 ^ nat (e1 - e2)) (m2 * 2 ^ nat (e2 - e1))"
    and "real_of_int (m1 * 2 ^ nat (e1 - e2)) / real_of_int (m2 * 2 ^ nat (e2 - e1))
           = float64_value (Finite m1 e1) / float64_value (Finite m2 e2)"
proof -
  show "float64_div (Finite m1 e1) (Finite m2 e2)
           = round_float64 (m1 * 2 ^ nat (e1 - e2)) (m2 * 2 ^ nat (e2 - e1))"
    using assms by simp
  have "float64_value (Finite m1 e1) / float64_value (Finite m2 e2)
          = (real_of_int m1 / real_of_int m2) * (2 powr real_of_int e1 / 2 powr real_of_int e2)"
    by simp
  also have "\<dots> = (real_of_int m1 / real_of_int m2) * (2 ^ nat (e1 - e2) / 2 ^ nat (e2 - e1))"
    by (simp only: powr_quotient)
  finally show "real_of_int (m1 * 2 ^ nat (e1 - e2)) / real_of_int (m2 * 2 ^ nat (e2 - e1))
           = float64_value (Finite m1 e1) / float64_value (Finite m2 e2)"
    by simp
qed

lemma powr_shift:
  assumes "e \<le> e1"
  shows "2 ^ nat (e1 - e) * 2 powr real_of_int e = 2 powr real_of_int e1"
proof -
  have "2 powr real_of_int e1 = 2 powr (real_of_int (e1 - e) + real_of_int e)"
    by simp
  also have "\<dots> = 2 powr real_of_int (e1 - e) * 2 powr real_of_int e"
    by (simp only: powr_add)
  also have "2 powr real_of_int (e1 - e) = 2 ^ nat (e1 - e)"
    using assms by (subst two_powr_int) simp
  finally show ?thesis by simp
qed

lemma float64_sub_value:
  "float64_sub (Finite m1 e1) (Finite m2 e2)
     = round_float64 ((m1 * 2 ^ nat (e1 - min e1 e2) - m2 * 2 ^ nat (e2 - min e1 e2))
                        * 2 ^ nat (min e1 e2))
         (2 ^ nat (- min e1 e2))"
  "real_of_int ((m1 * 2 ^ nat (e1 - min e1 e2) - m2 * 2 ^ nat (e2 - min e1 e2))
                  * 2 ^ nat (min e1 e2))
     / real_of_int (2 ^ nat (- min e1 e2))
     = float64_value (Finite m1 e1) - float64_value (Finite m2 e2)"
proof -
  define e where "e = min e1 e2"
  define d where "d = m1 * 2 ^ nat (e1 - e) - m2 * 2 ^ nat (e2 - e)"
  show "float64_sub (Finite m1 e1) (Finite m2 e2)
     = round_float64 ((m1 * 2 ^ nat (e1 - min e1 e2) - m2 * 2 ^ nat (e2 - min e1 e2))
                        * 2 ^ nat (min e1 e2))
         (2 ^ nat (- min e1 e2))"
    by (simp add: Let_def)
  have s1: "2 ^ nat (e1 - e) * 2 powr real_of_int e = 2 powr real_of_int e1"
    by (rule powr_shift) (simp add: e_def)
  have s2: "2 ^ nat (e2 - e) * 2 powr real_of_int e = 2 powr real_of_int e2"
    by (rule powr_shift) (simp add: e_def)
  have "real_of_int (d * 2 ^ nat e) / real_of_int (2 ^ nat (- e)) = real_of_int d * 2 powr real_of_int e"
    by (cases "0 \<le> e") (simp_all add: two_powr_int divide_inverse)
  also have "\<dots> = real_of_int m1 * (2 ^ nat (e1 - e) * 2 powr real_of_int e)
                     - real_of_int m2 * (2 ^ nat (e2 - e) * 2 powr real_of_int e)"
    by (simp add: d_def algebra_simps)
  also have "\<dots> = real_of_int m1 * 2 powr real_of_int e1 - real_of_int m2 * 2 powr real_of_int e2"
    by (simp only: s1 s2)
  finally show "real_of_int ((m1 * 2 ^ nat (e1 - min e1 e2) - m2 * 2 ^ nat (e2 - min e1 e2))
                  * 2 ^ nat (min e1 e2))
     / real_of_int (2 ^ nat (- min e1 e2))
     = float64_value (Finite m1 e1) - float64_value (Finite m2 e2)"
    by (simp add: d_def e_def)
qed

lemma float64_less_value:
  "float64_less (Finite m1 e1) (Finite m2 e2)
     = (float64_value (Finite m1 e1) < float64_value (Finite m2 e2))"
proof -
  define e where "e = min e1 e2"
  have pos: "0 < 2 powr real_of_int e"
    by simp
  have s1: "2 ^ nat (e1 - e) * 2 powr real_of_int e = 2 powr real_of_int e1"
    by (rule powr_shift) (simp add: e_def)
  have s2: "2 ^ nat (e2 - e) * 2 powr real_of_int e = 2 powr real_of_int e2"
    by (rule powr_shift) (simp add: e_def)
  have "float64_less (Finite m1 e1) (Finite m2 e2)
          = (m1 * 2 ^ nat (e1 - e) < m2 * 2 ^ nat (e2 - e))"
    by (simp add: Let_def e_def)
  also have "\<dots> = (real_of_int (m1 * 2 ^ nat (e1 - e)) < real_of_int (m2 * 2 ^ nat (e2 - e)))"
    by (simp only: of_int_less_iff)
  also have "\<dots> = (real_of_int (m1 * 2 ^ nat (e1 - e)) * 2 powr real_of_int e
                        < real_of_int (m2 * 2 ^ nat (e2 - e)) * 2 powr real_of_int e)"
    using pos by (simp only: mult_less_cancel_right_pos)
  also have "real_of_int (m1 * 2 ^ nat (e1 - e)) * 2 powr real_of_int e
               = real_of_int m1 * (2 ^ nat (e1 - e) * 2 powr real_of_int e)"
    by simp
  also have "real_of_int (m2 * 2 ^ nat (e2 - e)) * 2 powr real_of_int e
               = real_of_int m2 * (2 ^ nat (e2 - e) * 2 powr real_of_int e)"
    by simp
  finally show ?thesis
    by (simp only: s1 s2 float64_value.simps)
qed

lemma round_half_even_tie: "2 * (a mod b) = b \<Longrightarrow> even (round_half_even a b)"
  by (simp add: round_half_even_def Let_def)

lemma float64_constants:
  "round_float64 1 10 = Finite 7205759403792794 (- 56)"
  "round_float64 16 9 = Finite 8006399337547548 (- 52)"
  "round_float64 9 16 = Finite 5066549580791808 (- 53)"
  "float64_of_int (2 ^ 53 + 1) = Finite 4503599627370496 1"
  "float64_of_int (2 ^ 53 + 3) = Finite 4503599627370498 1"
  by code_simp+

text \<open>
  The two tests of the classifier decide the exact inequalities, as long as the exact
  distance is not within \<open>2 ^ -40\<close> of one tenth; the quotient of two integers below
  \<open>2 ^ 31\<close> never is, unless the distance is one tenth exactly.
\<close>

lemma two_powr_neg: "2 powr real_of_int (- int n) = 1 / 2 ^ n"
  by (subst two_powr_int) (simp add: divide_inverse)

lemma float64_constant_values:
  "float64_value (round_float64 1 10) = 7205759403792794 / 2 ^ 56"
  "float64_value (round_float64 16 9) = 8006399337547548 / 2 ^ 52"
  "float64_value (round_float64 9 16) = 9 / 16"
proof -
  have p: "2 powr real_of_int (- 56) = 1 / 2 ^ 56" "2 powr real_of_int (- 52) = 1 / 2 ^ 52"
    "2 powr real_of_int (- 53) = 1 / 2 ^ 53"
    using two_powr_neg [of 56] two_powr_neg [of 52] two_powr_neg [of 53] by simp_all
  show "float64_value (round_float64 1 10) = 7205759403792794 / 2 ^ 56"
    unfolding float64_constants float64_value.simps p by simp
  show "float64_value (round_float64 16 9) = 8006399337547548 / 2 ^ 52"
    unfolding float64_constants float64_value.simps p by simp
  show "float64_value (round_float64 9 16) = 9 / 16"
    unfolding float64_constants float64_value.simps p by simp
qed

lemma tolerance_decides:
  fixes x y :: real
  assumes r: "r = Finite mr er" "- 100 \<le> er" "er \<le> 0"
    and vr: "\<bar>float64_value r - x\<bar> \<le> x / 2 ^ 53" "0 < x" "x < 2 ^ 40"
    and c: "c = Finite mc ec" "- 100 \<le> ec" "ec \<le> 0"
    and vc: "\<bar>float64_value c - y\<bar> \<le> 1 / 2 ^ 53" "0 < y" "y < 2"
    and gap: "\<bar>x - y\<bar> \<le> 1 / 10 - 1 / 2 ^ 40 \<or> 1 / 10 + 1 / 2 ^ 40 \<le> \<bar>x - y\<bar>"
  shows "float64_less (math_Abs (float64_sub r c)) (round_float64 1 10) = (\<bar>x - y\<bar> < 1 / 10)"
proof -
  define D where "D = float64_value r - float64_value c"
  define e where "e = min er ec"
  define A where "A = (mr * 2 ^ nat (er - e) - mc * 2 ^ nat (ec - e)) * 2 ^ nat e"
  define B :: int where "B = 2 ^ nat (- e)"
  have e: "- 100 \<le> e" "e \<le> 0"
    using r(2,3) c(2,3) by (simp_all add: e_def)
  have sub: "float64_sub r c = round_float64 A B"
    unfolding r(1) c(1) A_def B_def e_def by (rule float64_sub_value(1))
  have ratio: "real_of_int A / real_of_int B = D"
    unfolding r(1) c(1) A_def B_def e_def D_def by (rule float64_sub_value(2))
  have B: "0 < B"
    by (simp add: B_def)
  have vt: "float64_value (round_float64 1 10) = 7205759403792794 / 2 ^ 56"
    by (rule float64_constant_values(1))
  have "\<exists>md ed. float64_sub r c = Finite md ed \<and>
          \<bar>real_of_int md * 2 powr real_of_int ed - D\<bar> \<le> \<bar>D\<bar> / 2 ^ 53"
  proof (cases "A = 0")
    case True
    with ratio have "D = 0" by simp
    moreover from True have "float64_sub r c = Finite 0 0"
      by (simp add: sub round_float64_def)
    ultimately show ?thesis by simp
  next
    case False
    then have "1 \<le> \<bar>real_of_int A\<bar>"
      by (simp add: abs_if)
    moreover have "real_of_int B \<le> 2 ^ 100"
    proof -
      have "nat (- e) \<le> 100" using e by simp
      then have "(2::real) ^ nat (- e) \<le> 2 ^ 100"
        by (intro power_increasing) simp_all
      then show ?thesis by (simp add: B_def)
    qed
    ultimately have "1 / 2 ^ 100 \<le> \<bar>real_of_int A\<bar> / real_of_int B"
      using B by (intro frac_le) simp_all
    moreover have "\<bar>real_of_int A / real_of_int B\<bar> = \<bar>real_of_int A\<bar> / real_of_int B"
      using B by simp
    moreover have "2 powr real_of_int (- 100) = 1 / 2 ^ 100"
      using two_powr_neg [of 100] by simp
    ultimately have low: "2 powr real_of_int (- 100) \<le> \<bar>real_of_int A / real_of_int B\<bar>"
      by (simp only:)
    have "\<bar>D\<bar> < 2 ^ 42"
      using vr vc by (simp add: D_def abs_if split: if_splits)
    moreover have "2 powr real_of_int 42 = 2 ^ 42"
      by (subst two_powr_int) simp
    ultimately have high: "\<bar>real_of_int A / real_of_int B\<bar> < 2 powr real_of_int 42"
      by (simp only: ratio)
    from round_float64_rel [OF B False low high]
    show ?thesis
      by (auto simp: sub ratio)
  qed
  then obtain md ed where d: "float64_sub r c = Finite md ed"
    and vd: "\<bar>real_of_int md * 2 powr real_of_int ed - D\<bar> \<le> \<bar>D\<bar> / 2 ^ 53"
    by blast
  have "float64_less (math_Abs (float64_sub r c)) (round_float64 1 10)
          = (float64_value (Finite \<bar>md\<bar> ed) < float64_value (round_float64 1 10))"
    by (simp only: d math_Abs.simps float64_constants(1) float64_less_value)
  also have "float64_value (Finite \<bar>md\<bar> ed) = \<bar>real_of_int md * 2 powr real_of_int ed\<bar>"
    by (simp add: abs_mult)
  finally have less: "float64_less (math_Abs (float64_sub r c)) (round_float64 1 10)
          = (\<bar>real_of_int md * 2 powr real_of_int ed\<bar> < 7205759403792794 / 2 ^ 56)"
    by (simp only: vt)
  define vd' where "vd' = real_of_int md * 2 powr real_of_int ed"
  define vr' where "vr' = float64_value r"
  define vc' where "vc' = float64_value c"
  have f1: "\<bar>vd' - (vr' - vc')\<bar> \<le> \<bar>vr' - vc'\<bar> / 9007199254740992"
    using vd by (simp add: vd'_def vr'_def vc'_def D_def)
  have f2: "\<bar>vr' - x\<bar> \<le> x / 9007199254740992"
    using vr(1) by (simp add: vr'_def)
  have f3: "\<bar>vc' - y\<bar> \<le> 1 / 9007199254740992"
    using vc(1) by (simp add: vc'_def)
  have g: "\<bar>x - y\<bar> \<le> 1 / 10 - 1 / 1099511627776 \<or> 1 / 10 + 1 / 1099511627776 \<le> \<bar>x - y\<bar>"
    using gap by simp
  have "(\<bar>vd'\<bar> < 7205759403792794 / 72057594037927936) = (\<bar>x - y\<bar> < 1 / 10)"
    using f1 f2 f3 g vr(2) vc(2,3) by (auto simp: abs_if split: if_splits)
  then show ?thesis
    by (simp add: less vd'_def)
qed


lemma tolerance_gap:
  fixes W H p q :: int
  assumes "0 < H" and "H < 2 ^ 31" and "0 < q" and "q \<le> 16"
    and "\<bar>real_of_int W / real_of_int H - real_of_int p / real_of_int q\<bar> \<noteq> 1 / 10"
  shows "\<bar>real_of_int W / real_of_int H - real_of_int p / real_of_int q\<bar> \<le> 1 / 10 - 1 / 2 ^ 40 \<or>
         1 / 10 + 1 / 2 ^ 40 \<le> \<bar>real_of_int W / real_of_int H - real_of_int p / real_of_int q\<bar>"
proof -
  define x where "x = real_of_int W / real_of_int H"
  define y where "y = real_of_int p / real_of_int q"
  define k where "k = q * W - p * H"
  define N where "N = 10 * \<bar>k\<bar> - q * H"
  define K where "K = 10 * q * H"
  have K: "0 < K" "K \<le> 343597383680"
  proof -
    show "0 < K" using assms(1,3) by (simp add: K_def)
    have "q * H \<le> 16 * 2 ^ 31"
      using assms(1-4) by (intro mult_mono) simp_all
    then show "K \<le> 343597383680" by (simp add: K_def mult_ac)
  qed
  have "x - y = real_of_int k / real_of_int (q * H)"
    using assms(1,3) by (simp add: x_def y_def k_def field_simps)
  then have "\<bar>x - y\<bar> = real_of_int \<bar>k\<bar> / real_of_int (q * H)"
    using assms(1,3) by (simp add: abs_divide)
  then have eq: "\<bar>x - y\<bar> - 1 / 10 = real_of_int N / real_of_int K"
    using assms(1,3) by (simp add: N_def K_def field_simps)
  have "N \<noteq> 0"
  proof
    assume "N = 0"
    with eq have "\<bar>x - y\<bar> = 1 / 10" by simp
    with assms(5) show False by (simp add: x_def y_def)
  qed
  then consider "1 \<le> N" | "N \<le> - 1"
    by linarith
  then show ?thesis
  proof cases
    case 1
    then have "1 / 343597383680 \<le> real_of_int N / real_of_int K"
      using K by (intro frac_le) simp_all
    with eq have "1 / 10 + 1 / 2 ^ 40 \<le> \<bar>x - y\<bar>"
      by simp
    then show ?thesis by (simp add: x_def y_def)
  next
    case 2
    then have "1 / 343597383680 \<le> real_of_int (- N) / real_of_int K"
      using K by (intro frac_le) simp_all
    with eq have "\<bar>x - y\<bar> \<le> 1 / 10 - 1 / 2 ^ 40"
      by simp
    then show ?thesis by (simp add: x_def y_def)
  qed
qed

lemma ratio_rounding:
  assumes "0 < W" and "W < 2 ^ 31" and "0 < H" and "H < 2 ^ 31"
  shows "\<exists>mr er. float64_div (float64_of_int W) (float64_of_int H) = Finite mr er \<and>
           - 100 \<le> er \<and> er \<le> 0 \<and>
           \<bar>float64_value (Finite mr er) - real_of_int W / real_of_int H\<bar>
             \<le> (real_of_int W / real_of_int H) / 2 ^ 53"
proof -
  from assms(1,2) have "W < 2 ^ 53" by simp
  from float64_of_int_exact [OF assms(1) this]
  obtain m1 e1 where 1: "float64_of_int W = Finite m1 e1" "0 < m1"
    "real_of_int m1 * 2 powr real_of_int e1 = real_of_int W"
    by blast
  from assms(3,4) have "H < 2 ^ 53" by simp
  from float64_of_int_exact [OF assms(3) this]
  obtain m2 e2 where 2: "float64_of_int H = Finite m2 e2" "0 < m2"
    "real_of_int m2 * 2 powr real_of_int e2 = real_of_int H"
    by blast
  define A where "A = m1 * 2 ^ nat (e1 - e2)"
  define B where "B = m2 * 2 ^ nat (e2 - e1)"
  have AB: "0 < A" "0 < B"
    using 1(2) 2(2) by (simp_all add: A_def B_def)
  have div: "float64_div (float64_of_int W) (float64_of_int H) = round_float64 A B"
    unfolding 1(1) 2(1) A_def B_def by (rule float64_div_value(1) [OF 2(2)])
  have "real_of_int A / real_of_int B = float64_value (Finite m1 e1) / float64_value (Finite m2 e2)"
    unfolding A_def B_def by (rule float64_div_value(2) [OF 2(2)])
  then have ratio: "real_of_int A / real_of_int B = real_of_int W / real_of_int H"
    by (simp add: 1(3) 2(3))
  have "1 / 2 ^ 31 \<le> real_of_int W / real_of_int H"
    using assms by (intro frac_le) simp_all
  moreover have "2 powr real_of_int (- 31) = 1 / 2 ^ 31"
    using two_powr_neg [of 31] by simp
  ultimately have low: "2 powr real_of_int (- 31) \<le> real_of_int A / real_of_int B"
    by (simp only: ratio)
  have "real_of_int W / real_of_int H < 2 ^ 31 / 1"
    using assms by (intro frac_less) simp_all
  moreover have "2 powr real_of_int 31 = 2 ^ 31"
    by (subst two_powr_int) simp
  ultimately have high: "real_of_int A / real_of_int B < 2 powr real_of_int 31"
    by (simp add: ratio)
  from round_float64_pos [OF AB low high]
  show ?thesis
    by (auto simp: div ratio)
qed

lemma classify_exact:
  fixes W H :: int
  assumes "0 < W" and "W < 2 ^ 31" and "0 < H" and "H < 2 ^ 31"
    and "\<bar>real_of_int W / real_of_int H - 16 / 9\<bar> \<noteq> 1 / 10"
    and "\<bar>real_of_int W / real_of_int H - 9 / 16\<bar> \<noteq> 1 / 10"
  shows "(if float64_less
               (math_Abs (float64_sub (float64_div (float64_of_int W) (float64_of_int H))
                            (round_float64 16 9)))
               (round_float64 1 10)
          then ''16:9''
          else if float64_less
                    (math_Abs (float64_sub (float64_div (float64_of_int W) (float64_of_int H))
                                 (round_float64 9 16)))
                    (round_float64 1 10)
          then ''9:16''
          else ''other'')
           = (if \<bar>real_of_int W / real_of_int H - 16 / 9\<bar> < 1 / 10 then ''16:9''
              else if \<bar>real_of_int W / real_of_int H - 9 / 16\<bar> < 1 / 10 then ''9:16''
              else ''other'')"
proof -
  define x where "x = real_of_int W / real_of_int H"
  define r where "r = float64_div (float64_of_int W) (float64_of_int H)"
  from ratio_rounding [OF assms(1-4)]
  obtain mr er where r: "r = Finite mr er" "- 100 \<le> er" "er \<le> 0"
    and vr: "\<bar>float64_value r - x\<bar> \<le> x / 2 ^ 53"
    unfolding r_def x_def by auto
  have x: "0 < x" "x < 2 ^ 40"
  proof -
    show "0 < x" using assms(1,3) by (simp add: x_def)
    have "x < 2 ^ 31 / 1"
      unfolding x_def using assms(1-4) by (intro frac_less) simp_all
    then show "x < 2 ^ 40" by simp
  qed
  have gap1: "\<bar>x - 16 / 9\<bar> \<le> 1 / 10 - 1 / 2 ^ 40 \<or> 1 / 10 + 1 / 2 ^ 40 \<le> \<bar>x - 16 / 9\<bar>"
    using tolerance_gap [OF assms(3,4), of 9 W 16] assms(5) by (simp add: x_def)
  have gap2: "\<bar>x - 9 / 16\<bar> \<le> 1 / 10 - 1 / 2 ^ 40 \<or> 1 / 10 + 1 / 2 ^ 40 \<le> \<bar>x - 9 / 16\<bar>"
    using tolerance_gap [OF assms(3,4), of 16 W 9] assms(6) by (simp add: x_def)
  have c1: "\<bar>float64_value (round_float64 16 9) - 16 / 9\<bar> \<le> 1 / 2 ^ 53"
    by (simp add: float64_constant_values)
  have c2: "\<bar>float64_value (round_float64 9 16) - 9 / 16\<bar> \<le> 1 / 2 ^ 53"
    by (simp add: float64_constant_values)
  have d1: "float64_less (math_Abs (float64_sub r (round_float64 16 9))) (round_float64 1 10)
              = (\<bar>x - 16 / 9\<bar> < 1 / 10)"
    by (rule tolerance_decides [OF r vr x float64_constants(2) _ _ c1 _ _ gap1]) simp_all
  have d2: "float64_less (math_Abs (float64_sub r (round_float64 9 16))) (round_float64 1 10)
              = (\<bar>x - 9 / 16\<bar> < 1 / 10)"
    by (rule tolerance_decides [OF r vr x float64_constants(3) _ _ c2 _ _ gap2]) simp_all
  show ?thesis
    unfolding r_def [symmetric] x_def [symmetric]
    by (simp only: d1 d2)
qed

lemma aspectRatioLabel_exact:
  assumes "0 < sint w" and "sint w < 2 ^ 31" and "0 < sint h" and "sint h < 2 ^ 31"
    and "\<bar>real_of_int (sint w) / real_of_int (sint h) - 16 / 9\<bar> \<noteq> 1 / 10"
    and "\<bar>real_of_int (sint w) / real_of_int (sint h) - 9 / 16\<bar> \<noteq> 1 / 10"
  shows "aspectRatioLabel w h
           = (if \<bar>real_of_int (sint w) / real_of_int (sint h) - 16 / 9\<bar> < 1 / 10 then ''16:9''
              else if \<bar>real_of_int (sint w) / real_of_int (sint h) - 9 / 16\<bar> < 1 / 10 then ''9:16''
              else ''other'')"
  unfolding aspectRatioLabel_def Let_def
  by (rule classify_exact [OF assms])


text \<open>
  The rounding depends on the quotient only, not on the fraction that denotes it: the four
  quotients at a distance of exactly one tenth are classified as 151/90, 169/90, 37/80 and
  53/80 are.
\<close>

lemma floor_log2_cong:
  assumes "0 < a" and "0 < b" and "0 < a'" and "0 < b'" and "a * b' = a' * b"
  shows "floor_log2 a b = floor_log2 a' b'"
proof -
  have "real_of_int (a * b') = real_of_int (a' * b)"
    by (simp only: assms(5))
  then have eq: "real_of_int a / real_of_int b = real_of_int a' / real_of_int b'"
    using assms(2,4) by (simp add: field_simps)
  note fl = floor_log2_bounds [OF assms(1,2)]
  have "floor_log2 a b \<le> floor_log2 a' b'" and "floor_log2 a' b' < floor_log2 a b + 1"
    using floor_log2_range [OF assms(3,4), of "floor_log2 a b" "floor_log2 a b + 1"] fl
    by (simp_all only: eq)
  then show ?thesis by simp
qed

lemma round_half_even_cong:
  assumes "0 < b" and "0 < b'" and "a * b' = a' * b"
  shows "round_half_even a b = round_half_even a' b'"
proof -
  have "real_of_int (a * b') = real_of_int (a' * b)"
    by (simp only: assms(3))
  then have "real_of_int a / real_of_int b = real_of_int a' / real_of_int b'"
    using assms(1,2) by (simp add: field_simps)
  then have "\<lfloor>real_of_int a / real_of_int b\<rfloor> = \<lfloor>real_of_int a' / real_of_int b'\<rfloor>"
    by simp
  then have q: "a div b = a' div b'"
    by (simp only: floor_divide_of_int_eq)
  define q where "q = a div b"
  define r where "r = a mod b"
  define r' where "r' = a' mod b'"
  have a: "a = q * b + r"
    by (simp add: q_def r_def)
  have a': "a' = q * b' + r'"
    by (simp add: q_def r'_def q)
  have "r * b' = a * b' - q * b * b'"
    by (simp add: a algebra_simps)
  also have "\<dots> = a' * b - q * b' * b"
    by (simp add: assms(3) algebra_simps)
  also have "\<dots> = r' * b"
    by (simp add: a' algebra_simps)
  finally have cross: "r * b' = r' * b" .
  have "(2 * r < b) = (2 * r * b' < b * b')"
    using assms(2) by simp
  also have "2 * r * b' = 2 * r' * b"
    using cross by simp
  also have "(2 * r' * b < b * b') = (2 * r' < b')"
    using assms(1) by (simp add: mult.commute)
  finally have lt: "(2 * r < b) = (2 * r' < b')" .
  have "(b < 2 * r) = (b * b' < 2 * r * b')"
    using assms(2) by simp
  also have "2 * r * b' = 2 * r' * b"
    using cross by simp
  also have "(b * b' < 2 * r' * b) = (b' < 2 * r')"
    using assms(1) by (simp add: mult.commute)
  finally have gt: "(b < 2 * r) = (b' < 2 * r')" .
  show ?thesis
    unfolding round_half_even_def Let_def q [symmetric] r_def [symmetric] r'_def [symmetric]
    by (simp only: lt gt)
qed

lemma round_float64_cong:
  assumes "0 < a" and "0 < b" and "0 < a'" and "0 < b'" and "a * b' = a' * b"
  shows "round_float64 a b = round_float64 a' b'"
proof -
  define e where "e = max (floor_log2 a b - 52) (- 1074)"
  have e': "max (floor_log2 a' b' - 52) (- 1074) = e"
    by (simp only: e_def floor_log2_cong [OF assms])
  have abs: "\<bar>a\<bar> = a" "\<bar>a'\<bar> = a'"
    using assms(1,3) by simp_all
  have up: "round_half_even a (b * 2 ^ nat e) = round_half_even a' (b' * 2 ^ nat e)"
    using assms(2,4,5) by (intro round_half_even_cong) (simp_all add: algebra_simps)
  have down: "round_half_even (a * 2 ^ nat (- e)) b = round_half_even (a' * 2 ^ nat (- e)) b'"
    using assms(2,4,5) by (intro round_half_even_cong) (simp_all add: algebra_simps)
  have facts: "(a = 0) = False" "(a' = 0) = False" "(a < 0) = False" "(a' < 0) = False"
    using assms(1,3) by simp_all
  show ?thesis
    unfolding round_float64_def Let_def abs e' e_def [symmetric] facts
    by (simp only: up down)
qed


lemma ratio_const:
  assumes "0 < W" and "W < 2 ^ 31" and "0 < H" and "H < 2 ^ 31"
    and "0 < p" and "0 < q" and "W * q = p * H"
  shows "float64_div (float64_of_int W) (float64_of_int H) = round_float64 p q"
proof -
  from assms(1,2) have "W < 2 ^ 53" by simp
  from float64_of_int_exact [OF assms(1) this]
  obtain m1 e1 where 1: "float64_of_int W = Finite m1 e1" "0 < m1"
    "real_of_int m1 * 2 powr real_of_int e1 = real_of_int W"
    by blast
  from assms(3,4) have "H < 2 ^ 53" by simp
  from float64_of_int_exact [OF assms(3) this]
  obtain m2 e2 where 2: "float64_of_int H = Finite m2 e2" "0 < m2"
    "real_of_int m2 * 2 powr real_of_int e2 = real_of_int H"
    by blast
  define A where "A = m1 * 2 ^ nat (e1 - e2)"
  define B where "B = m2 * 2 ^ nat (e2 - e1)"
  have AB: "0 < A" "0 < B"
    using 1(2) 2(2) by (simp_all add: A_def B_def)
  have div: "float64_div (float64_of_int W) (float64_of_int H) = round_float64 A B"
    unfolding 1(1) 2(1) A_def B_def by (rule float64_div_value(1) [OF 2(2)])
  have "real_of_int A / real_of_int B = float64_value (Finite m1 e1) / float64_value (Finite m2 e2)"
    unfolding A_def B_def by (rule float64_div_value(2) [OF 2(2)])
  then have "real_of_int A / real_of_int B = real_of_int W / real_of_int H"
    by (simp add: 1(3) 2(3))
  then have "real_of_int A * real_of_int H = real_of_int W * real_of_int B"
    using AB(2) assms(3) by (simp add: field_simps)
  then have "real_of_int (A * H) = real_of_int (W * B)"
    by simp
  then have cross: "A * H = W * B"
    by (simp only: of_int_eq_iff)
  have "(A * q) * H = (W * q) * B"
    using cross by (simp add: algebra_simps)
  also have "\<dots> = (p * B) * H"
    by (simp add: assms(7) algebra_simps)
  finally have "A * q = p * B"
    using assms(3) by simp
  from round_float64_cong [OF AB(1,2) assms(5,6) this] div show ?thesis
    by simp
qed

lemma at_the_tolerance:
  "float64_less (math_Abs (float64_sub (round_float64 151 90) (round_float64 16 9))) (round_float64 1 10)"
  "\<not> float64_less (math_Abs (float64_sub (round_float64 169 90) (round_float64 16 9))) (round_float64 1 10)"
  "\<not> float64_less (math_Abs (float64_sub (round_float64 169 90) (round_float64 9 16))) (round_float64 1 10)"
  "\<not> float64_less (math_Abs (float64_sub (round_float64 37 80) (round_float64 16 9))) (round_float64 1 10)"
  "float64_less (math_Abs (float64_sub (round_float64 37 80) (round_float64 9 16))) (round_float64 1 10)"
  "\<not> float64_less (math_Abs (float64_sub (round_float64 53 80) (round_float64 16 9))) (round_float64 1 10)"
  "float64_less (math_Abs (float64_sub (round_float64 53 80) (round_float64 9 16))) (round_float64 1 10)"
  by code_simp+

text \<open>The exact inequalities, on the integers.\<close>

lemma ratio_less:
  fixes W H p q :: int
  assumes "0 < H" and "0 < q"
  shows "(real_of_int W / real_of_int H < real_of_int p / real_of_int q) = (q * W < p * H)"
    and "(real_of_int p / real_of_int q < real_of_int W / real_of_int H) = (p * H < q * W)"
proof -
  have "(real_of_int W / real_of_int H < real_of_int p / real_of_int q)
          = (real_of_int (q * W) < real_of_int (p * H))"
    using assms by (simp add: field_simps)
  then show "(real_of_int W / real_of_int H < real_of_int p / real_of_int q) = (q * W < p * H)"
    by (simp only: of_int_less_iff)
  have "(real_of_int p / real_of_int q < real_of_int W / real_of_int H)
          = (real_of_int (p * H) < real_of_int (q * W))"
    using assms by (simp add: field_simps)
  then show "(real_of_int p / real_of_int q < real_of_int W / real_of_int H) = (p * H < q * W)"
    by (simp only: of_int_less_iff)
qed

lemma ratio_eq:
  fixes W H p q :: int
  assumes "0 < H" and "0 < q"
  shows "(real_of_int W / real_of_int H = real_of_int p / real_of_int q) = (q * W = p * H)"
proof -
  have "(real_of_int W / real_of_int H = real_of_int p / real_of_int q)
          = (real_of_int (q * W) = real_of_int (p * H))"
    using assms by (simp add: field_simps)
  then show ?thesis
    by (simp only: of_int_eq_iff)
qed

lemma tolerance_as_integers:
  fixes W H :: int
  assumes "0 < H"
  shows "(\<bar>real_of_int W / real_of_int H - 16 / 9\<bar> < 1 / 10) = (151 * H < 90 * W \<and> 90 * W < 169 * H)"
    and "(\<bar>real_of_int W / real_of_int H - 9 / 16\<bar> < 1 / 10) = (37 * H < 80 * W \<and> 80 * W < 53 * H)"
    and "(\<bar>real_of_int W / real_of_int H - 16 / 9\<bar> = 1 / 10) = (90 * W = 151 * H \<or> 90 * W = 169 * H)"
    and "(\<bar>real_of_int W / real_of_int H - 9 / 16\<bar> = 1 / 10) = (80 * W = 37 * H \<or> 80 * W = 53 * H)"
proof -
  define x where "x = real_of_int W / real_of_int H"
  have lt: "(x < 169 / 90) = (90 * W < 169 * H)" "(151 / 90 < x) = (151 * H < 90 * W)"
    "(x < 53 / 80) = (80 * W < 53 * H)" "(37 / 80 < x) = (37 * H < 80 * W)"
    using ratio_less(1) [where W = W and H = H and p = 169 and q = 90]
      ratio_less(2) [where W = W and H = H and p = 151 and q = 90]
      ratio_less(1) [where W = W and H = H and p = 53 and q = 80]
      ratio_less(2) [where W = W and H = H and p = 37 and q = 80] assms
    by (simp_all add: x_def)
  have eq: "(x = 169 / 90) = (90 * W = 169 * H)" "(x = 151 / 90) = (90 * W = 151 * H)"
    "(x = 53 / 80) = (80 * W = 53 * H)" "(x = 37 / 80) = (80 * W = 37 * H)"
    using ratio_eq [where W = W and H = H and p = 169 and q = 90]
      ratio_eq [where W = W and H = H and p = 151 and q = 90]
      ratio_eq [where W = W and H = H and p = 53 and q = 80]
      ratio_eq [where W = W and H = H and p = 37 and q = 80] assms
    by (simp_all add: x_def)
  have "(\<bar>x - 16 / 9\<bar> < 1 / 10) = (151 / 90 < x \<and> x < 169 / 90)"
    by (auto simp: abs_if)
  then show "(\<bar>real_of_int W / real_of_int H - 16 / 9\<bar> < 1 / 10)
               = (151 * H < 90 * W \<and> 90 * W < 169 * H)"
    by (simp only: lt x_def [symmetric])
  have "(\<bar>x - 9 / 16\<bar> < 1 / 10) = (37 / 80 < x \<and> x < 53 / 80)"
    by (auto simp: abs_if)
  then show "(\<bar>real_of_int W / real_of_int H - 9 / 16\<bar> < 1 / 10)
               = (37 * H < 80 * W \<and> 80 * W < 53 * H)"
    by (simp only: lt x_def [symmetric])
  have "(\<bar>x - 16 / 9\<bar> = 1 / 10) = (x = 151 / 90 \<or> x = 169 / 90)"
    by (auto simp: abs_if)
  then show "(\<bar>real_of_int W / real_of_int H - 16 / 9\<bar> = 1 / 10)
               = (90 * W = 151 * H \<or> 90 * W = 169 * H)"
    by (simp only: eq x_def [symmetric])
  have "(\<bar>x - 9 / 16\<bar> = 1 / 10) = (x = 37 / 80 \<or> x = 53 / 80)"
    by (auto simp: abs_if)
  then show "(\<bar>real_of_int W / real_of_int H - 9 / 16\<bar> = 1 / 10)
               = (80 * W = 37 * H \<or> 80 * W = 53 * H)"
    by (simp only: eq x_def [symmetric])
qed


lemma classify_integer:
  fixes W H :: int
  assumes "0 < W" and "W < 2 ^ 31" and "0 < H" and "H < 2 ^ 31"
  shows "(if float64_less
               (math_Abs (float64_sub (float64_div (float64_of_int W) (float64_of_int H))
                            (round_float64 16 9)))
               (round_float64 1 10)
          then ''16:9''
          else if float64_less
                    (math_Abs (float64_sub (float64_div (float64_of_int W) (float64_of_int H))
                                 (round_float64 9 16)))
                    (round_float64 1 10)
          then ''9:16''
          else ''other'')
           = (if 151 * H \<le> 90 * W \<and> 90 * W < 169 * H then ''16:9''
              else if 37 * H \<le> 80 * W \<and> 80 * W \<le> 53 * H then ''9:16''
              else ''other'')"
proof -
  consider (lo16) "90 * W = 151 * H" | (hi16) "90 * W = 169 * H"
    | (lo9) "80 * W = 37 * H" | (hi9) "80 * W = 53 * H"
    | (off) "90 * W \<noteq> 151 * H" "90 * W \<noteq> 169 * H" "80 * W \<noteq> 37 * H" "80 * W \<noteq> 53 * H"
    by blast
  then show ?thesis
  proof cases
    case lo16
    then have "W * 90 = 151 * H" by simp
    from ratio_const [OF assms _ _ this]
    have r: "float64_div (float64_of_int W) (float64_of_int H) = round_float64 151 90"
      by simp
    from lo16 assms(3) have "151 * H \<le> 90 * W \<and> 90 * W < 169 * H"
      by simp
    then show ?thesis
      by (simp add: r at_the_tolerance)
  next
    case hi16
    then have "W * 90 = 169 * H" by simp
    from ratio_const [OF assms _ _ this]
    have r: "float64_div (float64_of_int W) (float64_of_int H) = round_float64 169 90"
      by simp
    from hi16 assms(3) have "\<not> 90 * W < 169 * H" and "\<not> 80 * W \<le> 53 * H"
      by simp_all
    then show ?thesis
      by (simp add: r at_the_tolerance)
  next
    case lo9
    then have "W * 80 = 37 * H" by simp
    from ratio_const [OF assms _ _ this]
    have r: "float64_div (float64_of_int W) (float64_of_int H) = round_float64 37 80"
      by simp
    from lo9 assms(3) have "\<not> 151 * H \<le> 90 * W" and "37 * H \<le> 80 * W \<and> 80 * W \<le> 53 * H"
      by simp_all
    then show ?thesis
      by (simp add: r at_the_tolerance)
  next
    case hi9
    then have "W * 80 = 53 * H" by simp
    from ratio_const [OF assms _ _ this]
    have r: "float64_div (float64_of_int W) (float64_of_int H) = round_float64 53 80"
      by simp
    from hi9 assms(3) have "\<not> 151 * H \<le> 90 * W" and "37 * H \<le> 80 * W \<and> 80 * W \<le> 53 * H"
      by simp_all
    then show ?thesis
      by (simp add: r at_the_tolerance)
  next
    case off
    note ints = tolerance_as_integers [OF assms(3), of W]
    from off have ne: "\<bar>real_of_int W / real_of_int H - 16 / 9\<bar> \<noteq> 1 / 10"
      "\<bar>real_of_int W / real_of_int H - 9 / 16\<bar> \<noteq> 1 / 10"
      by (simp_all only: ints(3,4)) simp_all
    from off have le: "(151 * H \<le> 90 * W) = (151 * H < 90 * W)"
      "(37 * H \<le> 80 * W) = (37 * H < 80 * W)" "(80 * W \<le> 53 * H) = (80 * W < 53 * H)"
      by auto
    show ?thesis
      by (simp only: classify_exact [OF assms ne] ints(1,2) le)
  qed
qed

text \<open>
  On widths and heights below \<open>2 ^ 31\<close> the \<open>float64\<close> classification is this
  integer test.
\<close>

lemma aspectRatioLabel_integers:
  assumes "0 < sint w" and "sint w < 2 ^ 31" and "0 < sint h" and "sint h < 2 ^ 31"
  shows "aspectRatioLabel w h
           = (if 151 * sint h \<le> 90 * sint w \<and> 90 * sint w < 169 * sint h then ''16:9''
              else if 37 * sint h \<le> 80 * sint w \<and> 80 * sint w \<le> 53 * sint h then ''9:16''
              else ''other'')"
  unfolding aspectRatioLabel_def Let_def
  by (rule classify_integer [OF assms])

text \<open>
  The tolerance is the \<open>float64\<close> nearest to 0.1, and the differences are rounded: a
  quotient of exactly 16/9 - 0.1 is classified \<open>16:9\<close>, one of exactly 16/9 + 0.1 is not.
\<close>

lemma aspectRatioLabel_at_the_tolerance:
  "aspectRatioLabel 151 90 = ''16:9''"
  "aspectRatioLabel 169 90 = ''other''"
  by code_simp+

section \<open>Properties of the media prober and the aspect classifier\<close>

text \<open>
  C9. When the tool has run and its output has been decoded, an empty list of streams
  makes the prober return the error \<open>no streams found in video file\<close> with an empty
  label: no label is computed.
\<close>

theorem getVideoAspectRatio_no_streams:
  assumes "cmd_Run p ''ffprobe''
             [''-v'', ''error'', ''-print_format'', ''json'', ''-show_streams'', filePath] = Inr out"
    and "json_Unmarshal p out = Inr data"
    and "Streams data = []"
  shows "getVideoAspectRatio p filePath = ([], Some ''no streams found in video file'')"
  using assms by (simp add: getVideoAspectRatio_def)

theorem getVideoAspectRatio_no_streams_witness:
  "cmd_Run ex_prober ''ffprobe''
     [''-v'', ''error'', ''-print_format'', ''json'', ''-show_streams'', ''empty.mp4'']
     = Inr [123, 125] \<and>
   json_Unmarshal ex_prober [123, 125] = Inr \<lparr>Streams = []\<rparr> \<and>
   Streams \<lparr>Streams = []\<rparr> = [] \<and>
   getVideoAspectRatio ex_prober ''empty.mp4'' = ([], Some ''no streams found in video file'')"
proof -
  have 1: "cmd_Run ex_prober ''ffprobe''
             [''-v'', ''error'', ''-print_format'', ''json'', ''-show_streams'', ''empty.mp4'']
             = Inr [123, 125]"
    by (simp add: ex_prober_def)
  have 2: "json_Unmarshal ex_prober [123, 125] = Inr \<lparr>Streams = []\<rparr>"
    by (simp add: ex_prober_def)
  have 3: "Streams \<lparr>Streams = []\<rparr> = []"
    by simp
  from getVideoAspectRatio_no_streams [OF 1 2 3] 1 2 3 show ?thesis
    by simp
qed

lemma ex_labels:
  "aspectRatioLabel 1920 1080 = ''16:9''"
  "aspectRatioLabel 1080 1920 = ''9:16''"
  "aspectRatioLabel 1000 1000 = ''other''"
  by code_simp+

text \<open>
  C8. The classifier is a function of width and height alone. Its value is always one of
  the three labels: \<open>16:9\<close> exactly when the \<open>float64\<close> quotient of width and height is
  within 0.1 of 16/9, \<open>9:16\<close> exactly when it is not but is within 0.1 of 9/16, and
  \<open>other\<close> in every remaining case (a zero height, which makes the quotient infinite or
  not a number, is one of them). For a positive width and height below \<open>2 ^ 31\<close> whose
  exact quotient is not at a distance of exactly one tenth from 16/9 or 9/16, the label is
  the one the exact quotient gives: \<open>16:9\<close> when it is less than 0.1 from 16/9, else
  \<open>9:16\<close> when it is less than 0.1 from 9/16, else \<open>other\<close>; with the four exact
  distances of one tenth, the label is \<open>16:9\<close> from 151/90 inclusive to 169/90
  exclusive, and \<open>9:16\<close> from 37/80 to 53/80, both inclusive. A prober that decodes a
  first stream of that width and height returns this label and no error; 1920 by 1080 is
  \<open>16:9\<close>, 1080 by 1920 is \<open>9:16\<close>, 1000 by 1000 is \<open>other\<close>.
\<close>

theorem aspectRatioLabel_classifies:
  "aspectRatioLabel w h \<in> {''16:9'', ''9:16'', ''other''} \<and>
   (aspectRatioLabel w h = ''16:9'') =
      within_tolerance (float64_div (float64_of_int (sint w)) (float64_of_int (sint h))) 16 9 \<and>
   (aspectRatioLabel w h = ''9:16'') =
      (\<not> within_tolerance (float64_div (float64_of_int (sint w)) (float64_of_int (sint h))) 16 9 \<and>
       within_tolerance (float64_div (float64_of_int (sint w)) (float64_of_int (sint h))) 9 16) \<and>
   (0 < sint w \<and> sint w < 2 ^ 31 \<and> 0 < sint h \<and> sint h < 2 ^ 31 \<and>
    \<bar>real_of_int (sint w) / real_of_int (sint h) - 16 / 9\<bar> \<noteq> 1 / 10 \<and>
    \<bar>real_of_int (sint w) / real_of_int (sint h) - 9 / 16\<bar> \<noteq> 1 / 10 \<longrightarrow>
    aspectRatioLabel w h
      = (if \<bar>real_of_int (sint w) / real_of_int (sint h) - 16 / 9\<bar> < 1 / 10 then ''16:9''
         else if \<bar>real_of_int (sint w) / real_of_int (sint h) - 9 / 16\<bar> < 1 / 10 then ''9:16''
         else ''other'')) \<and>
   (0 < sint w \<and> sint w < 2 ^ 31 \<and> 0 < sint h \<and> sint h < 2 ^ 31 \<longrightarrow>
    aspectRatioLabel w h
      = (if 151 * sint h \<le> 90 * sint w \<and> 90 * sint w < 169 * sint h then ''16:9''
         else if 37 * sint h \<le> 80 * sint w \<and> 80 * sint w \<le> 53 * sint h then ''9:16''
         else ''other'')) \<and>
   getVideoAspectRatio
      \<lparr>cmd_Run = (\<lambda>name args. Inr out),
       json_Unmarshal = (\<lambda>out. Inr \<lparr>Streams = \<lparr>Width = w, Height = h\<rparr> # rest\<rparr>)\<rparr> filePath
     = (aspectRatioLabel w h, None) \<and>
   aspectRatioLabel 0 0 = ''other'' \<and>
   aspectRatioLabel 1920 1080 = ''16:9'' \<and>
   aspectRatioLabel 1080 1920 = ''9:16'' \<and>
   aspectRatioLabel 1000 1000 = ''other''"
proof -
  have labels: "aspectRatioLabel w h \<in> {''16:9'', ''9:16'', ''other''}"
    by (simp add: aspectRatioLabel_def Let_def)
  have wide: "(aspectRatioLabel w h = ''16:9'') =
      within_tolerance (float64_div (float64_of_int (sint w)) (float64_of_int (sint h))) 16 9"
    by (simp add: aspectRatioLabel_def within_tolerance_def Let_def)
  have tall: "(aspectRatioLabel w h = ''9:16'') =
      (\<not> within_tolerance (float64_div (float64_of_int (sint w)) (float64_of_int (sint h))) 16 9 \<and>
       within_tolerance (float64_div (float64_of_int (sint w)) (float64_of_int (sint h))) 9 16)"
    by (simp add: aspectRatioLabel_def within_tolerance_def Let_def)
  have exact: "0 < sint w \<and> sint w < 2 ^ 31 \<and> 0 < sint h \<and> sint h < 2 ^ 31 \<and>
    \<bar>real_of_int (sint w) / real_of_int (sint h) - 16 / 9\<bar> \<noteq> 1 / 10 \<and>
    \<bar>real_of_int (sint w) / real_of_int (sint h) - 9 / 16\<bar> \<noteq> 1 / 10 \<longrightarrow>
    aspectRatioLabel w h
      = (if \<bar>real_of_int (sint w) / real_of_int (sint h) - 16 / 9\<bar> < 1 / 10 then ''16:9''
         else if \<bar>real_of_int (sint w) / real_of_int (sint h) - 9 / 16\<bar> < 1 / 10 then ''9:16''
         else ''other'')"
  proof (intro impI, elim conjE)
    assume "0 < sint w" and "sint w < 2 ^ 31" and "0 < sint h" and "sint h < 2 ^ 31"
      and "\<bar>real_of_int (sint w) / real_of_int (sint h) - 16 / 9\<bar> \<noteq> 1 / 10"
      and "\<bar>real_of_int (sint w) / real_of_int (sint h) - 9 / 16\<bar> \<noteq> 1 / 10"
    then show "aspectRatioLabel w h
      = (if \<bar>real_of_int (sint w) / real_of_int (sint h) - 16 / 9\<bar> < 1 / 10 then ''16:9''
         else if \<bar>real_of_int (sint w) / real_of_int (sint h) - 9 / 16\<bar> < 1 / 10 then ''9:16''
         else ''other'')"
      by (rule aspectRatioLabel_exact)
  qed
  have integers: "0 < sint w \<and> sint w < 2 ^ 31 \<and> 0 < sint h \<and> sint h < 2 ^ 31 \<longrightarrow>
    aspectRatioLabel w h
      = (if 151 * sint h \<le> 90 * sint w \<and> 90 * sint w < 169 * sint h then ''16:9''
         else if 37 * sint h \<le> 80 * sint w \<and> 80 * sint w \<le> 53 * sint h then ''9:16''
         else ''other'')"
  proof (intro impI, elim conjE)
    assume "0 < sint w" and "sint w < 2 ^ 31" and "0 < sint h" and "sint h < 2 ^ 31"
    then show "aspectRatioLabel w h
      = (if 151 * sint h \<le> 90 * sint w \<and> 90 * sint w < 169 * sint h then ''16:9''
         else if 37 * sint h \<le> 80 * sint w \<and> 80 * sint w \<le> 53 * sint h then ''9:16''
         else ''other'')"
      by (rule aspectRatioLabel_integers)
  qed
  have prober: "getVideoAspectRatio
      \<lparr>cmd_Run = (\<lambda>name args. Inr out),
       json_Unmarshal = (\<lambda>out. Inr \<lparr>Streams = \<lparr>Width = w, Height = h\<rparr> # rest\<rparr>)\<rparr> filePath
     = (aspectRatioLabel w h, None)"
    by (simp add: getVideoAspectRatio_def)
  have zero: "aspectRatioLabel 0 0 = ''other''"
    by code_simp
  from labels wide tall exact integers prober zero ex_labels show ?thesis
    by (intro conjI)
qed

theorem aspectRatioLabel_classifies_witness:
  "0 < sint (640 :: 64 word) \<and> sint (640 :: 64 word) < 2 ^ 31 \<and>
   0 < sint (480 :: 64 word) \<and> sint (480 :: 64 word) < 2 ^ 31 \<and>
   \<bar>real_of_int (sint (640 :: 64 word)) / real_of_int (sint (480 :: 64 word)) - 16 / 9\<bar> \<noteq> 1 / 10 \<and>
   \<bar>real_of_int (sint (640 :: 64 word)) / real_of_int (sint (480 :: 64 word)) - 9 / 16\<bar> \<noteq> 1 / 10 \<and>
   aspectRatioLabel 640 480 = ''other''"
proof -
  have w: "sint (640 :: 64 word) = 640" and h: "sint (480 :: 64 word) = 480"
    by simp_all
  have range: "0 < sint (640 :: 64 word) \<and> sint (640 :: 64 word) < 2 ^ 31 \<and>
               0 < sint (480 :: 64 word) \<and> sint (480 :: 64 word) < 2 ^ 31"
    by (simp only: w h) simp
  have off: "\<bar>real_of_int (sint (640 :: 64 word)) / real_of_int (sint (480 :: 64 word)) - 16 / 9\<bar> \<noteq> 1 / 10"
    "\<bar>real_of_int (sint (640 :: 64 word)) / real_of_int (sint (480 :: 64 word)) - 9 / 16\<bar> \<noteq> 1 / 10"
    by (simp_all only: w h)
  from aspectRatioLabel_classifies [of 640 480] range
  have "aspectRatioLabel 640 480
          = (if 151 * sint (480 :: 64 word) \<le> 90 * sint (640 :: 64 word)
                \<and> 90 * sint (640 :: 64 word) < 169 * sint (480 :: 64 word) then ''16:9''
             else if 37 * sint (480 :: 64 word) \<le> 80 * sint (640 :: 64 word)
                \<and> 80 * sint (640 :: 64 word) \<le> 53 * sint (480 :: 64 word) then ''9:16''
             else ''other'')"
    by blast
  then have "aspectRatioLabel 640 480 = ''other''"
    by (simp only: w h) simp
  with range off show ?thesis
    by blast
qed

end
